theory Spec2Isabelle
  imports Complex_Main
begin

section \<open>State estimation of the PiDrone: a shallow embedding of \<^verbatim>\<open>state_estimation.py\<close>\<close>

text \<open>
  The source computes with IEEE double-precision numbers held in NumPy arrays. The
  embedding idealises a finite double as a \<^typ>\<open>real\<close>, a one-dimensional array as a
  \<^typ>\<open>real list\<close> and a two-dimensional array as a list of rows. Rounding, infinities
  and NaN are outside the model; the one place where the real-number reading of the source
  divides by zero is written out as a result of its own (\<open>NonFinite\<close>).
\<close>

subsection \<open>Exceptions and NumPy primitives\<close>

datatype pyerror = TypeError | ValueError | IndexError | LinAlgError | NonFinite

text \<open>A method either returns or raises; the attributes it assigned before raising stay assigned.\<close>

datatype outcome = Returned | Raised pyerror

definition bindE :: "pyerror + 'a \<Rightarrow> ('a \<Rightarrow> pyerror + 'b) \<Rightarrow> pyerror + 'b" where
  "bindE m f = (case m of Inl e \<Rightarrow> Inl e | Inr a \<Rightarrow> f a)"

text \<open>\<^verbatim>\<open>a[i]\<close> for a one-dimensional array and a literal index \<open>i \<ge> 0\<close>.\<close>

definition np_index :: "real list \<Rightarrow> nat \<Rightarrow> pyerror + real" where
  "np_index a i = (if i < length a then Inr (a ! i) else Inl IndexError)"

text \<open>\<^verbatim>\<open>np.deg2rad\<close>.\<close>

definition deg2rad :: "real \<Rightarrow> real" where
  "deg2rad d = d * pi / 180"

definition inner_prod :: "real list \<Rightarrow> real list \<Rightarrow> real" where
  "inner_prod a b = sum_list (map2 (*) a b)"

text \<open>
  \<^verbatim>\<open>np.dot(M, v)\<close> for a two-dimensional \<open>M\<close> and a one-dimensional \<open>v\<close>: the shapes must
  agree, otherwise NumPy raises \<^verbatim>\<open>ValueError\<close>.
\<close>

definition np_dot :: "real list list \<Rightarrow> real list \<Rightarrow> pyerror + real list" where
  "np_dot M v =
     (if list_all (\<lambda>row. length row = length v) M then Inr (map (\<lambda>row. inner_prod row v) M)
      else Inl ValueError)"

definition vadd :: "real list \<Rightarrow> real list \<Rightarrow> real list" where
  "vadd a b = map2 (+) a b"

definition vsub :: "real list \<Rightarrow> real list \<Rightarrow> real list" where
  "vsub a b = map2 (-) a b"

definition smul :: "real \<Rightarrow> real list \<Rightarrow> real list" where
  "smul c a = map ((*) c) a"

text \<open>\<^verbatim>\<open>np.eye(n)\<close>, and the assignment \<^verbatim>\<open>M[i, j] = v\<close>.\<close>

definition eye :: "nat \<Rightarrow> real list list" where
  "eye n = map (\<lambda>i. map (\<lambda>j. if i = j then 1 else 0) [0..<n]) [0..<n]"

definition mat_set :: "real list list \<Rightarrow> nat \<Rightarrow> nat \<Rightarrow> real \<Rightarrow> real list list" where
  "mat_set M i j v = M[i := (M ! i)[j := v]]"

subsection \<open>Geometric transform\<close>

text \<open>
  \<^verbatim>\<open>apply_rotation_matrix(self, original_matrix)\<close>. The angles are read from the stored
  mean \<^verbatim>\<open>self.ukf.x\<close> (the first argument here), not from an argument of the call. The
  nine entries are those of the source, in its order.
\<close>

definition rotation_matrix :: "real \<Rightarrow> real \<Rightarrow> real \<Rightarrow> real list list" where
  "rotation_matrix phi theta psi =
     [[cos theta * cos psi,
       sin phi * sin theta * cos psi - cos phi * sin psi,
       cos phi * sin theta * cos psi + sin phi * sin psi],
      [cos theta * sin psi,
       sin phi * sin theta * sin psi + cos phi * cos psi,
       cos theta * sin phi],
      [- sin theta,
       cos theta * sin phi,
       cos theta * cos phi]]"

definition apply_rotation_matrix :: "real list \<Rightarrow> real list \<Rightarrow> pyerror + real list" where
  "apply_rotation_matrix ukf_mean original_matrix =
     bindE (np_index ukf_mean 6) (\<lambda>roll.
     bindE (np_index ukf_mean 7) (\<lambda>pitch.
     bindE (np_index ukf_mean 8) (\<lambda>yaw.
       np_dot (rotation_matrix (deg2rad roll) (deg2rad pitch) (deg2rad yaw)) original_matrix)))"

text \<open>
  The rotation the specification names, written from its words: the product
  \<open>rotation_z(yaw) \<cdot> rotation_y(pitch) \<cdot> rotation_x(roll)\<close> of the three elementary rotations.
\<close>

definition rotation_x :: "real \<Rightarrow> real list list" where
  "rotation_x a = [[1, 0, 0], [0, cos a, - sin a], [0, sin a, cos a]]"

definition rotation_y :: "real \<Rightarrow> real list list" where
  "rotation_y a = [[cos a, 0, sin a], [0, 1, 0], [- sin a, 0, cos a]]"

definition rotation_z :: "real \<Rightarrow> real list list" where
  "rotation_z a = [[cos a, - sin a, 0], [sin a, cos a, 0], [0, 0, 1]]"

definition mat_vec :: "real list list \<Rightarrow> real list \<Rightarrow> real list" where
  "mat_vec M v = map (\<lambda>row. inner_prod row v) M"

definition spec_rotate_to_global :: "real list \<Rightarrow> real \<Rightarrow> real \<Rightarrow> real \<Rightarrow> real list" where
  "spec_rotate_to_global v roll_deg pitch_deg yaw_deg =
     mat_vec (rotation_z (deg2rad yaw_deg))
       (mat_vec (rotation_y (deg2rad pitch_deg))
         (mat_vec (rotation_x (deg2rad roll_deg)) v))"

subsection \<open>Process model\<close>

text \<open>The transition matrix \<open>F\<close> of \<^verbatim>\<open>state_transition_function\<close>.\<close>

definition transition_matrix :: "real \<Rightarrow> real list list" where
  "transition_matrix dt =
     mat_set (mat_set (mat_set (mat_set (mat_set (mat_set (eye 12)
       0 3 dt) 1 4 dt) 2 5 dt) 6 9 dt) 7 10 dt) 8 11 dt"

text \<open>
  \<^verbatim>\<open>state_transition_function(self, x, dt, u)\<close>; the first argument is the stored mean
  \<^verbatim>\<open>self.ukf.x\<close> that \<^verbatim>\<open>apply_rotation_matrix\<close> reads. The product of the 3x3 rotation
  matrix with \<open>u\<close> has three components whenever it is defined.
\<close>

definition state_transition_function ::
    "real list \<Rightarrow> real list \<Rightarrow> real \<Rightarrow> real list \<Rightarrow> pyerror + real list" where
  "state_transition_function ukf_mean x dt u =
     bindE (apply_rotation_matrix ukf_mean u) (\<lambda>accelerations_global_frame.
       let velocities_global_frame = smul dt accelerations_global_frame;
           change_from_control_input =
             [0, 0, 0,
              velocities_global_frame ! 0,
              velocities_global_frame ! 1,
              velocities_global_frame ! 2,
              0, 0, 0, 0, 0, 0]
       in bindE (np_dot (transition_matrix dt) x) (\<lambda>Fx.
            Inr (vadd Fx change_from_control_input)))"

subsection \<open>Observation models\<close>

text \<open>
  \<^verbatim>\<open>measurement_function_ir\<close>. Over the reals \<open>cos theta * cos phi\<close> can be zero; the
  source then produces an infinity or a NaN, which the model reports as \<open>NonFinite\<close>
  instead of dividing.
\<close>

definition measurement_function_ir :: "real list \<Rightarrow> pyerror + real list" where
  "measurement_function_ir x =
     bindE (np_index x 6) (\<lambda>roll_deg.
     bindE (np_index x 7) (\<lambda>pitch_deg.
       let phi = deg2rad roll_deg;
           theta = deg2rad pitch_deg
       in if cos theta * cos phi = 0 then Inl NonFinite
          else
            let alt_to_r = 1 / (cos theta * cos phi);
                H = [[0, 0, alt_to_r, 0, 0, 0, 0, 0, 0, 0, 0, 0]]
            in np_dot H x))"

definition measurement_function_optical_flow :: "real list \<Rightarrow> pyerror + real list" where
  "measurement_function_optical_flow x =
     (let H = [[0, 0, 0, 1, 0, 0, 0, 0, 0, 0, 0, 0],
               [0, 0, 0, 0, 1, 0, 0, 0, 0, 0, 0, 0],
               [0, 0, 0, 0, 0, 0, 0, 0, 0, 0, 0, 1]]
      in np_dot H x)"

definition measurement_function_rpy :: "real list \<Rightarrow> pyerror + real list" where
  "measurement_function_rpy x =
     (let H = [[0, 0, 0, 0, 0, 0, 1, 0, 0, 0, 0, 0],
               [0, 0, 0, 0, 0, 0, 0, 1, 0, 0, 0, 0],
               [0, 0, 0, 0, 0, 0, 0, 0, 1, 0, 0, 0]]
      in np_dot H x)"

subsection \<open>The filter object, the estimator and its messages\<close>

text \<open>
  The attributes of FilterPy's \<^verbatim>\<open>UnscentedKalmanFilter\<close> that the source reads or assigns,
  the mean \<^verbatim>\<open>x\<close>, the covariance \<^verbatim>\<open>P\<close> and the process noise \<^verbatim>\<open>Q\<close>, and the one the library
  keeps from a prediction to the update that follows it: \<^verbatim>\<open>sigmas_f\<close>, the sigma points the
  last prediction sent through the process function.
\<close>

record UnscentedKalmanFilter =
  ukf_x :: "real list"
  ukf_P :: "real list list"
  ukf_Q :: "real list list"
  ukf_sigmas_f :: "real list list"

text \<open>
  FilterPy and \<^verbatim>\<open>tf\<close> are imported by the source and are not part of it, so the
  calls into them are parameters of the model: \<^verbatim>\<open>self.ukf.predict(dt=..., u=...)\<close> with
  the process function the filter was constructed with (which is handed the stored mean
  that \<^verbatim>\<open>apply_rotation_matrix\<close> reads at the time of the call),
  \<^verbatim>\<open>self.ukf.update(z, hx=..., R=...)\<close>, and \<^verbatim>\<open>tf.transformations.euler_from_quaternion\<close>.
  A library call returns or raises, and gives back the filter object as it left it.
\<close>

record filter_library =
  lib_predict ::
    "(real list \<Rightarrow> real list \<Rightarrow> real \<Rightarrow> real list \<Rightarrow> pyerror + real list) \<Rightarrow>
      real option \<Rightarrow> real list \<Rightarrow> UnscentedKalmanFilter \<Rightarrow> outcome \<times> UnscentedKalmanFilter"
  lib_update ::
    "(real list \<Rightarrow> pyerror + real list) \<Rightarrow> real list \<Rightarrow> real list list \<Rightarrow>
      UnscentedKalmanFilter \<Rightarrow> outcome \<times> UnscentedKalmanFilter"
  euler_from_quaternion :: "real \<times> real \<times> real \<times> real \<Rightarrow> real \<times> real \<times> real"

text \<open>
  The attributes of \<^verbatim>\<open>StateEstimation\<close>. \<^verbatim>\<open>None\<close> is \<open>None\<close>; \<^verbatim>\<open>last_time_secs\<close> and
  \<^verbatim>\<open>last_time_nsecs\<close> do not exist before the first message (\<open>None\<close> here).
\<close>

record StateEstimation =
  ukf :: UnscentedKalmanFilter
  last_state_transition_time :: "real option"
  self_dt :: "real option"
  computed_first_prior :: bool
  last_control_input :: "real list"
  last_time_secs :: "int option"
  last_time_nsecs :: "int option"

record Time =
  secs :: int
  nsecs :: int

record Imu =
  imu_stamp :: Time
  linear_acceleration :: "real \<times> real \<times> real"
  orientation :: "real \<times> real \<times> real \<times> real"

record Mode =
  mode_stamp :: Time
  x_velocity :: real
  y_velocity :: real
  yaw_velocity :: real

record Range =
  range_stamp :: Time
  range_value :: real

text \<open>\<^verbatim>\<open>np.diag\<close> of a list, and a matrix scaled by a number.\<close>

definition np_diag :: "real list \<Rightarrow> real list list" where
  "np_diag d = map (\<lambda>i. map (\<lambda>j. if i = j then d ! i else 0) [0..<length d]) [0..<length d]"

definition mat_scale :: "real \<Rightarrow> real list list \<Rightarrow> real list list" where
  "mat_scale c M = map (smul c) M"

definition state_vector_dim :: nat where
  "state_vector_dim = 12"

text \<open>\<^verbatim>\<open>initialize_ukf_matrices\<close>: the measurement covariances (the range's is the 1x1 matrix).\<close>

definition measurement_cov_ir :: "real list list" where
  "measurement_cov_ir = [[1 / 10]]"

definition measurement_cov_optical_flow :: "real list list" where
  "measurement_cov_optical_flow = np_diag [1 / 10, 1 / 10, 1 / 10]"

definition measurement_cov_rpy :: "real list list" where
  "measurement_cov_rpy = np_diag [1 / 10, 1 / 10, 1 / 10]"

definition zero_mat :: "nat \<Rightarrow> nat \<Rightarrow> real list list" where
  "zero_mat r c = replicate r (replicate c 0)"

text \<open>
  \<^verbatim>\<open>__init__\<close>: the estimator as constructed. The library starts the mean and the
  \<open>2n + 1\<close> stored sigma points at zero.
\<close>

definition initial_ukf :: UnscentedKalmanFilter where
  "initial_ukf =
     \<lparr>ukf_x = replicate state_vector_dim 0,
      ukf_P = np_diag [1 / 10, 1 / 10, 1 / 10, 2 / 10, 2 / 10, 2 / 10, 1, 1, 1, 1, 1, 1],
      ukf_Q = mat_scale (1 / 1000) (eye state_vector_dim),
      ukf_sigmas_f = zero_mat (2 * state_vector_dim + 1) state_vector_dim\<rparr>"

definition initial_state :: StateEstimation where
  "initial_state =
     \<lparr>ukf = initial_ukf,
      last_state_transition_time = None,
      self_dt = None,
      computed_first_prior = False,
      last_control_input = [0, 0, 0],
      last_time_secs = None,
      last_time_nsecs = None\<rparr>"

subsection \<open>Fusion scheduler\<close>

definition stamp_to_secs :: "Time \<Rightarrow> real" where
  "stamp_to_secs t = real_of_int (secs t) + real_of_int (nsecs t) * (1 / 10 ^ 9)"

text \<open>
  \<^verbatim>\<open>update_input_time(self, msg)\<close>: the subtraction
  \<^verbatim>\<open>new_time - self.last_state_transition_time\<close> raises \<^verbatim>\<open>TypeError\<close> when the attribute is
  still \<^verbatim>\<open>None\<close>; the two assignments before it have been made by then.
\<close>

definition update_input_time :: "Time \<Rightarrow> StateEstimation \<Rightarrow> outcome \<times> StateEstimation" where
  "update_input_time stamp s =
     (let s1 = s\<lparr>last_time_secs := Some (secs stamp), last_time_nsecs := Some (nsecs stamp)\<rparr>;
          new_time = stamp_to_secs stamp
      in case last_state_transition_time s1 of
           None \<Rightarrow> (Raised TypeError, s1)
         | Some t \<Rightarrow>
             (Returned, s1\<lparr>self_dt := Some (new_time - t),
                            last_state_transition_time := Some new_time\<rparr>))"

text \<open>\<^verbatim>\<open>ukf_predict(self)\<close>: the flag is set only when the library call has returned.\<close>

definition ukf_predict :: "filter_library \<Rightarrow> StateEstimation \<Rightarrow> outcome \<times> StateEstimation" where
  "ukf_predict lib s =
     (case lib_predict lib state_transition_function (self_dt s) (last_control_input s) (ukf s) of
        (Raised e, k) \<Rightarrow> (Raised e, s\<lparr>ukf := k\<rparr>)
      | (Returned, k) \<Rightarrow> (Returned, s\<lparr>ukf := k, computed_first_prior := True\<rparr>))"

text \<open>
  The statement \<^verbatim>\<open>self.ukf.update(measurement_z, hx=..., R=...)\<close> that ends each callback
  (the source has no method of its own for it).
\<close>

definition measurement_update ::
    "filter_library \<Rightarrow> real list \<Rightarrow> (real list \<Rightarrow> pyerror + real list) \<Rightarrow> real list list \<Rightarrow>
      StateEstimation \<Rightarrow> outcome \<times> StateEstimation" where
  "measurement_update lib measurement_z hx R s =
     (case lib_update lib hx measurement_z R (ukf s) of (r, k) \<Rightarrow> (r, s\<lparr>ukf := k\<rparr>))"

text \<open>Statements in sequence: an exception ends the method with the state reached so far.\<close>

definition and_then ::
    "outcome \<times> StateEstimation \<Rightarrow> (StateEstimation \<Rightarrow> outcome \<times> StateEstimation) \<Rightarrow>
      outcome \<times> StateEstimation" where
  "and_then r f = (case r of (Raised e, s) \<Rightarrow> (Raised e, s) | (Returned, s) \<Rightarrow> f s)"

definition imu_data_callback :: "filter_library \<Rightarrow> Imu \<Rightarrow> StateEstimation \<Rightarrow> outcome \<times> StateEstimation" where
  "imu_data_callback lib data s =
     and_then (update_input_time (imu_stamp data) s) (\<lambda>s1.
       let (ax, ay, az) = linear_acceleration data;
           s2 = s1\<lparr>last_control_input := [ax, ay, az]\<rparr>
       in and_then (ukf_predict lib s2) (\<lambda>s3.
            let (roll, pitch, yaw) = euler_from_quaternion lib (orientation data);
                measurement_z = [roll, pitch, yaw]
            in measurement_update lib measurement_z measurement_function_rpy measurement_cov_rpy s3))"

definition optical_flow_data_callback ::
    "filter_library \<Rightarrow> Mode \<Rightarrow> StateEstimation \<Rightarrow> outcome \<times> StateEstimation" where
  "optical_flow_data_callback lib data s =
     and_then (update_input_time (mode_stamp data) s) (\<lambda>s1.
       and_then (ukf_predict lib s1) (\<lambda>s2.
         let measurement_z = [x_velocity data, y_velocity data, yaw_velocity data]
         in measurement_update lib measurement_z measurement_function_optical_flow
              measurement_cov_optical_flow s2))"

definition ir_data_callback :: "filter_library \<Rightarrow> Range \<Rightarrow> StateEstimation \<Rightarrow> outcome \<times> StateEstimation" where
  "ir_data_callback lib data s =
     and_then (update_input_time (range_stamp data) s) (\<lambda>s1.
       and_then (ukf_predict lib s1) (\<lambda>s2.
         let measurement_z = [range_value data]
         in measurement_update lib measurement_z measurement_function_ir measurement_cov_ir s2))"

subsection \<open>The filter library, from the specification\<close>

text \<open>
  Modelled from the spec: FilterPy's \<^verbatim>\<open>MerweScaledSigmaPoints\<close> and
  \<^verbatim>\<open>UnscentedKalmanFilter\<close> (\<^verbatim>\<open>predict\<close>, \<^verbatim>\<open>update\<close>) are imported by the source and are
  missing from it. What follows is the estimator core of section 4.1 of the specification:
  the 2n+1 sigma points of the scaled unscented transform, their recombination with fixed
  weights, the prediction and the correction. The dimension and the spread parameters are
  the ones the source passes to the constructors.
\<close>

definition sigma_alpha :: real where
  "sigma_alpha = 1 / 10"

definition sigma_beta :: real where
  "sigma_beta = 2"

definition sigma_kappa :: real where
  "sigma_kappa = 0"

definition default_dt :: real where
  "default_dt = 1"

definition sigma_lambda :: real where
  "sigma_lambda = sigma_alpha ^ 2 * (real state_vector_dim + sigma_kappa) - real state_vector_dim"

text \<open>
  Modelled from the spec: the matrix square root of the sigma-point generation, the
  upper-triangular Cholesky factor \<open>U\<close> with \<open>U\<^sup>T U = A\<close>, computed row by row. A pivot that is
  not positive is the decomposition failure of section 7 (\<^verbatim>\<open>LinAlgError\<close>).
\<close>

definition cholesky_row :: "real list list \<Rightarrow> nat \<Rightarrow> real list list \<Rightarrow> nat \<Rightarrow> real \<Rightarrow> real list" where
  "cholesky_row A n rows i p =
     map (\<lambda>j. if j < i then 0
              else if j = i then p
              else (A ! i ! j - sum_list (map (\<lambda>r. r ! i * r ! j) rows)) / p) [0..<n]"

fun cholesky_rows :: "real list list \<Rightarrow> nat \<Rightarrow> real list list \<Rightarrow> nat \<Rightarrow> pyerror + real list list" where
  "cholesky_rows A n rows 0 = Inr rows"
| "cholesky_rows A n rows (Suc m) =
     (let i = n - Suc m;
          d = A ! i ! i - sum_list (map (\<lambda>r. r ! i * r ! i) rows)
      in if d \<le> 0 then Inl LinAlgError
         else cholesky_rows A n (rows @ [cholesky_row A n rows i (sqrt d)]) m)"

definition cholesky :: "real list list \<Rightarrow> pyerror + real list list" where
  "cholesky A =
     (if list_all (\<lambda>row. length row = length A) A then cholesky_rows A (length A) [] (length A)
      else Inl ValueError)"

text \<open>Modelled from the spec: the 2n+1 sigma points around the mean \<open>x\<close> with covariance \<open>P\<close>.\<close>

definition sigma_points :: "real list \<Rightarrow> real list list \<Rightarrow> pyerror + real list list" where
  "sigma_points x P =
     (if length x \<noteq> state_vector_dim \<or> length P \<noteq> state_vector_dim then Inl ValueError
      else bindE (cholesky (mat_scale (sigma_lambda + real state_vector_dim) P)) (\<lambda>U.
             Inr (x # map (vadd x) U @ map (vsub x) U)))"

text \<open>Modelled from the spec: the fixed unscented weights of the mean and of the covariance.\<close>

definition Wm :: "real list" where
  "Wm = (sigma_lambda / (real state_vector_dim + sigma_lambda))
          # replicate (2 * state_vector_dim) (1 / (2 * (real state_vector_dim + sigma_lambda)))"

definition Wc :: "real list" where
  "Wc = (sigma_lambda / (real state_vector_dim + sigma_lambda) + (1 - sigma_alpha ^ 2 + sigma_beta))
          # replicate (2 * state_vector_dim) (1 / (2 * (real state_vector_dim + sigma_lambda)))"

definition madd :: "real list list \<Rightarrow> real list list \<Rightarrow> real list list" where
  "madd A B = map2 vadd A B"

definition msub :: "real list list \<Rightarrow> real list list \<Rightarrow> real list list" where
  "msub A B = map2 vsub A B"

definition outer :: "real list \<Rightarrow> real list \<Rightarrow> real list list" where
  "outer a b = map (\<lambda>ai. smul ai b) a"

text \<open>The weighted sum \<open>\<Sum>\<^sub>i w\<^sub>i v\<^sub>i\<close> of vectors of dimension \<open>m\<close>.\<close>

definition weighted_sum :: "nat \<Rightarrow> real list \<Rightarrow> real list list \<Rightarrow> real list" where
  "weighted_sum m ws vs = foldr vadd (map2 smul ws vs) (replicate m 0)"

text \<open>The weighted sum \<open>\<Sum>\<^sub>i w\<^sub>i a\<^sub>i b\<^sub>i\<^sup>T\<close> of outer products, an \<open>r\<close> by \<open>c\<close> matrix.\<close>

definition weighted_outer_sum ::
    "nat \<Rightarrow> nat \<Rightarrow> real list \<Rightarrow> real list list \<Rightarrow> real list list \<Rightarrow> real list list" where
  "weighted_outer_sum r c ws as bs =
     foldr madd (map2 (\<lambda>w (a, b). mat_scale w (outer a b)) ws (zip as bs)) (zero_mat r c)"

text \<open>
  Modelled from the spec: the recombination of transformed sigma points into a mean and a
  covariance, to which the noise covariance is added.
\<close>

definition unscented_transform ::
    "nat \<Rightarrow> real list list \<Rightarrow> real list list \<Rightarrow> real list \<times> real list list" where
  "unscented_transform m sigmas noise_cov =
     (let mean = weighted_sum m Wm sigmas;
          residuals = map (\<lambda>s. vsub s mean) sigmas
      in (mean, madd (weighted_outer_sum m m Wc residuals residuals) noise_cov))"

fun mapE :: "('a \<Rightarrow> pyerror + 'b) \<Rightarrow> 'a list \<Rightarrow> pyerror + 'b list" where
  "mapE f [] = Inr []"
| "mapE f (a # as) = bindE (f a) (\<lambda>b. bindE (mapE f as) (\<lambda>bs. Inr (b # bs)))"

text \<open>
  Modelled from the spec: Predict. Every sigma point of the stored mean and covariance goes
  through the process function, which is handed the mean stored when the call began; the
  propagated points are kept in \<^verbatim>\<open>sigmas_f\<close> for the update that follows. The stored mean
  and covariance are overwritten last, so a call that raises leaves them as they were. A
  call without \<open>dt\<close> uses the \<open>dt\<close> of the constructor.
\<close>

definition filter_predict ::
    "(real list \<Rightarrow> real list \<Rightarrow> real \<Rightarrow> real list \<Rightarrow> pyerror + real list) \<Rightarrow>
      real option \<Rightarrow> real list \<Rightarrow> UnscentedKalmanFilter \<Rightarrow> outcome \<times> UnscentedKalmanFilter" where
  "filter_predict fx dt u k =
     (let dt' = (case dt of None \<Rightarrow> default_dt | Some d \<Rightarrow> d)
      in case bindE (sigma_points (ukf_x k) (ukf_P k)) (mapE (\<lambda>s. fx (ukf_x k) s dt' u)) of
           Inl e \<Rightarrow> (Raised e, k)
         | Inr sigmas_f \<Rightarrow>
             if list_all (\<lambda>s. length s = state_vector_dim) sigmas_f
             then (case unscented_transform state_vector_dim sigmas_f (ukf_Q k) of
                     (x', P') \<Rightarrow>
                       (Returned, k\<lparr>ukf_x := x', ukf_P := P', ukf_sigmas_f := sigmas_f\<rparr>))
             else (Raised ValueError, k))"

text \<open>
  Modelled from the spec: the inverse of the measurement covariance by cofactors; a
  singular matrix is a numerical error.
\<close>

definition drop_nth :: "nat \<Rightarrow> 'a list \<Rightarrow> 'a list" where
  "drop_nth i xs = take i xs @ drop (Suc i) xs"

definition minor_mat :: "real list list \<Rightarrow> nat \<Rightarrow> nat \<Rightarrow> real list list" where
  "minor_mat M i j = map (drop_nth j) (drop_nth i M)"

fun det :: "nat \<Rightarrow> real list list \<Rightarrow> real" where
  "det 0 M = 1"
| "det (Suc n) M =
     sum_list (map (\<lambda>j. (- 1) ^ j * (M ! 0 ! j) * det n (minor_mat M 0 j)) [0..<Suc n])"

definition mat_inv :: "real list list \<Rightarrow> pyerror + real list list" where
  "mat_inv M =
     (let m = length M
      in if \<not> list_all (\<lambda>row. length row = m) M then Inl ValueError
         else if det m M = 0 then Inl LinAlgError
         else Inr (map (\<lambda>i. map (\<lambda>j. (- 1) ^ (i + j) * det (m - 1) (minor_mat M j i) / det m M)
                              [0..<m]) [0..<m]))"

definition transpose_mat :: "nat \<Rightarrow> real list list \<Rightarrow> real list list" where
  "transpose_mat c M = map (\<lambda>j. map (\<lambda>row. row ! j) M) [0..<c]"

definition mat_mul :: "nat \<Rightarrow> real list list \<Rightarrow> real list list \<Rightarrow> real list list" where
  "mat_mul c A B = map (\<lambda>row. map (inner_prod row) (transpose_mat c B)) A"

text \<open>
  Modelled from the spec: Update. Sigma points are mapped through the observation function
  and recombined into the predicted measurement and its covariance \<open>S\<close> (with the
  measurement noise added); the cross covariance and \<open>S\<close> give the gain, and the innovation
  corrects the mean and the covariance. On two points the words of the specification and
  FilterPy part, and the model follows the library the source calls: the sigma points are
  the propagated ones the last prediction kept in \<^verbatim>\<open>sigmas_f\<close> (all zero before the first
  prediction), not points generated anew, and nothing tests whether a prediction has been
  made.
\<close>

definition filter_update ::
    "(real list \<Rightarrow> pyerror + real list) \<Rightarrow> real list \<Rightarrow> real list list \<Rightarrow>
      UnscentedKalmanFilter \<Rightarrow> outcome \<times> UnscentedKalmanFilter" where
  "filter_update hx z R k =
     (let n = state_vector_dim; m = length z; sigmas_f = ukf_sigmas_f k
      in case bindE (mapE hx sigmas_f) (\<lambda>sigmas_h.
                if \<not> list_all (\<lambda>h. length h = m) sigmas_h
                   \<or> length R \<noteq> m \<or> \<not> list_all (\<lambda>row. length row = m) R
                then Inl ValueError
                else
                  let (zp, S) = unscented_transform m sigmas_h R
                  in bindE (mat_inv S) (\<lambda>SI.
                       let Pxz = weighted_outer_sum n m Wc
                                   (map (\<lambda>s. vsub s (ukf_x k)) sigmas_f)
                                   (map (\<lambda>h. vsub h zp) sigmas_h);
                           K = mat_mul m Pxz SI;
                           y = vsub z zp
                       in Inr (vadd (ukf_x k) (mat_vec K y),
                               msub (ukf_P k) (mat_mul n K (mat_mul n S (transpose_mat m K))))))
         of Inl e \<Rightarrow> (Raised e, k)
          | Inr (x', P') \<Rightarrow> (Returned, k\<lparr>ukf_x := x', ukf_P := P'\<rparr>))"

text \<open>
  Modelled from the spec: the conversion of the attitude quaternion \<open>(x, y, z, w)\<close> of an
  inertial reading to the Euler angles roll, pitch and yaw (\<^verbatim>\<open>tf\<close> is not part of the
  source): the usual formulas for a unit quaternion.
\<close>

definition arctan2 :: "real \<Rightarrow> real \<Rightarrow> real" where
  "arctan2 y x =
     (if 0 < x then arctan (y / x)
      else if x < 0 \<and> 0 \<le> y then arctan (y / x) + pi
      else if x < 0 then arctan (y / x) - pi
      else if 0 < y then pi / 2
      else if y < 0 then - pi / 2
      else 0)"

definition quaternion_to_euler :: "real \<times> real \<times> real \<times> real \<Rightarrow> real \<times> real \<times> real" where
  "quaternion_to_euler q =
     (case q of (qx, qy, qz, qw) \<Rightarrow>
        (arctan2 (2 * (qw * qx + qy * qz)) (1 - 2 * (qx * qx + qy * qy)),
         arcsin (max (- 1) (min 1 (2 * (qw * qy - qz * qx)))),
         arctan2 (2 * (qw * qz + qx * qy)) (1 - 2 * (qy * qy + qz * qz))))"

definition filter_model :: filter_library where
  "filter_model =
     \<lparr>lib_predict = filter_predict,
      lib_update = filter_update,
      euler_from_quaternion = quaternion_to_euler\<rparr>"

subsection \<open>Two estimators in mid-flight\<close>

text \<open>
  An estimator that last fused a reading stamped 10 s and holds a velocity of 1 m/s along
  \<open>x\<close>, its covariances as constructed.
\<close>

definition moving_state :: StateEstimation where
  "moving_state =
     initial_state
       \<lparr>ukf := initial_ukf\<lparr>ukf_x := [0, 0, 0, 1, 0, 0, 0, 0, 0, 0, 0, 0]\<rparr>,
        last_state_transition_time := Some 10\<rparr>"

text \<open>
  An estimator that last fused a reading stamped 0 s and whose covariance has lost positive
  definiteness (here: collapsed to zero), the failure the source's comment on \<open>Q\<close> warns of.
\<close>

definition degenerate_state :: StateEstimation where
  "degenerate_state =
     initial_state
       \<lparr>ukf := initial_ukf\<lparr>ukf_P := zero_mat state_vector_dim state_vector_dim\<rparr>,
        last_state_transition_time := Some 0\<rparr>"

section \<open>Lemmas\<close>

subsection \<open>Basic facts\<close>

lemma bindE_simps [simp]:
  "bindE (Inl e) f = Inl e"
  "bindE (Inr a) f = f a"
  by (simp_all add: bindE_def)

lemma length12_explicit:
  assumes "length (x :: 'a list) = 12"
  obtains a0 a1 a2 a3 a4 a5 a6 a7 a8 a9 a10 a11
  where "x = [a0, a1, a2, a3, a4, a5, a6, a7, a8, a9, a10, a11]"
proof -
  from assms have "length x = Suc (Suc (Suc (Suc (Suc (Suc (Suc (Suc (Suc (Suc (Suc (Suc 0)))))))))))"
    by simp
  then show thesis
    by (auto simp: length_Suc_conv intro: that)
qed

lemma length3_explicit:
  assumes "length (u :: 'a list) = 3"
  obtains b0 b1 b2 where "u = [b0, b1, b2]"
proof -
  from assms have "length u = Suc (Suc (Suc 0))" by simp
  then show thesis by (auto simp: length_Suc_conv intro: that)
qed

lemma transition_matrix_explicit:
  "transition_matrix dt =
    [[1, 0, 0, dt, 0, 0, 0, 0, 0, 0, 0, 0],
     [0, 1, 0, 0, dt, 0, 0, 0, 0, 0, 0, 0],
     [0, 0, 1, 0, 0, dt, 0, 0, 0, 0, 0, 0],
     [0, 0, 0, 1, 0, 0, 0, 0, 0, 0, 0, 0],
     [0, 0, 0, 0, 1, 0, 0, 0, 0, 0, 0, 0],
     [0, 0, 0, 0, 0, 1, 0, 0, 0, 0, 0, 0],
     [0, 0, 0, 0, 0, 0, 1, 0, 0, dt, 0, 0],
     [0, 0, 0, 0, 0, 0, 0, 1, 0, 0, dt, 0],
     [0, 0, 0, 0, 0, 0, 0, 0, 1, 0, 0, dt],
     [0, 0, 0, 0, 0, 0, 0, 0, 0, 1, 0, 0],
     [0, 0, 0, 0, 0, 0, 0, 0, 0, 0, 1, 0],
     [0, 0, 0, 0, 0, 0, 0, 0, 0, 0, 0, 1]]"
proof -
  have upt12: "[0..<12] = [0, 1, 2, 3, 4, 5, 6, 7, 8, 9, 10, 11 :: nat]"
    by (simp add: upt_rec)
  show ?thesis
    by (simp add: transition_matrix_def eye_def mat_set_def upt12)
qed

lemma and_then_simps:
  "and_then (Returned, s) f = f s"
  "and_then (Raised e, s) f = (Raised e, s)"
  by (simp_all add: and_then_def)

lemma and_then_assoc:
  "and_then (and_then r f) g = and_then r (\<lambda>s. and_then (f s) g)"
  by (simp add: and_then_def split: prod.splits outcome.splits)

lemma and_then_frame:
  assumes "\<And>s. f (snd (g s)) = f s"
  shows "f (snd (and_then r g)) = f (snd r)"
  using assms by (simp add: and_then_def split: prod.splits outcome.splits)

subsection \<open>Vectors as lists\<close>

lemma length_vadd [simp]: "length (vadd a b) = min (length a) (length b)"
  by (simp add: vadd_def)

lemma length_vsub [simp]: "length (vsub a b) = min (length a) (length b)"
  by (simp add: vsub_def)

lemma length_smul [simp]: "length (smul c a) = length a"
  by (simp add: smul_def)

lemma nth_vadd: "j < length a \<Longrightarrow> j < length b \<Longrightarrow> vadd a b ! j = a ! j + b ! j"
  by (simp add: vadd_def)

lemma nth_vsub: "j < length a \<Longrightarrow> j < length b \<Longrightarrow> vsub a b ! j = a ! j - b ! j"
  by (simp add: vsub_def)

lemma nth_smul: "j < length a \<Longrightarrow> smul c a ! j = c * a ! j"
  by (simp add: smul_def)

lemma length_mat_vec [simp]: "length (mat_vec M v) = length M"
  by (simp add: mat_vec_def)

lemma nth_mat_vec: "j < length M \<Longrightarrow> mat_vec M v ! j = inner_prod (M ! j) v"
  by (simp add: mat_vec_def)

lemma inner_prod_vadd:
  "length a = length row \<Longrightarrow> length b = length row \<Longrightarrow>
   inner_prod row (vadd a b) = inner_prod row a + inner_prod row b"
proof (induction row arbitrary: a b)
  case Nil
  then show ?case by (simp add: inner_prod_def vadd_def)
next
  case (Cons r row)
  then obtain a0 a' b0 b' where "a = a0 # a'" "b = b0 # b'"
    by (metis length_Suc_conv)
  with Cons show ?case
    by (simp add: inner_prod_def vadd_def algebra_simps)
qed

lemma inner_prod_vsub:
  "length a = length row \<Longrightarrow> length b = length row \<Longrightarrow>
   inner_prod row (vsub a b) = inner_prod row a - inner_prod row b"
proof (induction row arbitrary: a b)
  case Nil
  then show ?case by (simp add: inner_prod_def vsub_def)
next
  case (Cons r row)
  then obtain a0 a' b0 b' where "a = a0 # a'" "b = b0 # b'"
    by (metis length_Suc_conv)
  with Cons show ?case
    by (simp add: inner_prod_def vsub_def algebra_simps)
qed

lemma foldr_vadd_length:
  "list_all (\<lambda>v. length v = m) vs \<Longrightarrow> length (foldr vadd vs (replicate m 0)) = m"
  by (induction vs) simp_all

lemma foldr_vadd_nth:
  "list_all (\<lambda>v. length v = m) vs \<Longrightarrow> j < m \<Longrightarrow>
   foldr vadd vs (replicate m 0) ! j = sum_list (map (\<lambda>v. v ! j) vs)"
  by (induction vs) (simp_all add: nth_vadd foldr_vadd_length)

lemma list_all_map2_smul:
  "list_all (\<lambda>v. length v = m) vs \<Longrightarrow> list_all (\<lambda>v. length v = m) (map2 smul ws vs)"
proof (induction vs arbitrary: ws)
  case Nil
  then show ?case by simp
next
  case (Cons v vs)
  then show ?case by (cases ws) simp_all
qed

lemma weighted_sum_length:
  "list_all (\<lambda>v. length v = m) vs \<Longrightarrow> length (weighted_sum m ws vs) = m"
  by (simp add: weighted_sum_def foldr_vadd_length list_all_map2_smul)

lemma weighted_sum_nth:
  assumes "list_all (\<lambda>v. length v = m) vs" "j < m"
  shows "weighted_sum m ws vs ! j = sum_list (map2 (\<lambda>w v. w * v ! j) ws vs)"
proof -
  have "map (\<lambda>v. v ! j) (map2 smul ws vs) = map2 (\<lambda>w v. w * v ! j) ws vs"
    using assms
  proof (induction vs arbitrary: ws)
    case Nil
    then show ?case by simp
  next
    case (Cons v vs)
    then show ?case by (cases ws) (simp_all add: nth_smul)
  qed
  then have "sum_list (map (\<lambda>v. v ! j) (map2 smul ws vs)) = sum_list (map2 (\<lambda>w v. w * v ! j) ws vs)"
    by (rule arg_cong)
  with foldr_vadd_nth [OF list_all_map2_smul [OF assms(1)] assms(2), of ws]
  show ?thesis
    unfolding weighted_sum_def by (rule trans)
qed

lemma map2_replicate:
  "length xs = n \<Longrightarrow> map2 f (replicate n c) xs = map (f c) xs"
  by (induction xs arbitrary: n) auto

text \<open>
  A set of points symmetric about \<open>x\<close>, weighted \<open>w0\<close> at \<open>x\<close> and \<open>c\<close> elsewhere, under a
  functional \<open>h\<close> that is affine along each pair.
\<close>

lemma sigma_sum:
  fixes h :: "real list \<Rightarrow> real"
  assumes len: "length U = n"
    and sym: "\<And>r. r \<in> set U \<Longrightarrow> h (vadd x r) + h (vsub x r) = 2 * h x"
  shows "sum_list (map2 (\<lambda>w v. w * h v) (w0 # replicate (2 * n) c)
           (x # map (vadd x) U @ map (vsub x) U))
         = (w0 + 2 * real n * c) * h x"
proof -
  have rep: "replicate (2 * n) c = replicate n c @ replicate n c"
    by (simp add: replicate_add [symmetric] mult_2)
  have z: "zip (replicate n c @ replicate n c) (map (vadd x) U @ map (vsub x) U)
      = zip (replicate n c) (map (vadd x) U) @ zip (replicate n c) (map (vsub x) U)"
    using len by simp
  have "sum_list (map2 (\<lambda>w v. w * h v) (replicate (2 * n) c) (map (vadd x) U @ map (vsub x) U))
      = sum_list (map (\<lambda>r. c * h (vadd x r)) U) + sum_list (map (\<lambda>r. c * h (vsub x r)) U)"
    using len by (simp add: rep z map2_replicate o_def)
  also have "\<dots> = sum_list (map (\<lambda>r. c * h (vadd x r) + c * h (vsub x r)) U)"
    by (simp add: sum_list_addf)
  also have "\<dots> = sum_list (map (\<lambda>r. 2 * c * h x) U)"
  proof -
    have "map (\<lambda>r. c * h (vadd x r) + c * h (vsub x r)) U = map (\<lambda>r. 2 * c * h x) U"
    proof (rule map_cong [OF refl])
      fix r assume "r \<in> set U"
      from sym [OF this] have "c * (h (vadd x r) + h (vsub x r)) = c * (2 * h x)" by simp
      then show "c * h (vadd x r) + c * h (vsub x r) = 2 * c * h x"
        by (simp add: algebra_simps)
    qed
    then show ?thesis by (rule arg_cong)
  qed
  also have "\<dots> = real n * (2 * c * h x)"
    using len by (simp add: sum_list_triv)
  finally show ?thesis
    by (simp add: algebra_simps)
qed

subsection \<open>Sigma points and their weighted mean\<close>

lemma cholesky_rows_shape:
  "cholesky_rows A n rows m = Inr U \<Longrightarrow> list_all (\<lambda>r. length r = n) rows \<Longrightarrow>
   length U = length rows + m \<and> list_all (\<lambda>r. length r = n) U"
proof (induction A n rows m rule: cholesky_rows.induct)
  case (1 A n rows)
  then show ?case by simp
next
  case (2 A n rows m)
  then show ?case
    by (auto simp: Let_def cholesky_row_def split: if_splits)
qed

lemma cholesky_shape:
  assumes "cholesky A = Inr U"
  shows "length U = length A \<and> list_all (\<lambda>r. length r = length A) U"
  using assms cholesky_rows_shape [of A "length A" "[]" "length A" U]
  by (simp add: cholesky_def split: if_splits)

lemma sigma_points_shape:
  assumes "sigma_points x P = Inr sigmas"
  obtains U where "length x = state_vector_dim" "length U = state_vector_dim"
    "list_all (\<lambda>r. length r = state_vector_dim) U"
    "sigmas = x # map (vadd x) U @ map (vsub x) U"
proof -
  from assms have lx: "length x = state_vector_dim" and lP: "length P = state_vector_dim"
    by (auto simp: sigma_points_def split: if_splits)
  from assms lx lP obtain U
    where U: "cholesky (mat_scale (sigma_lambda + real state_vector_dim) P) = Inr U"
      and s: "sigmas = x # map (vadd x) U @ map (vsub x) U"
    by (auto simp: sigma_points_def bindE_def split: sum.splits)
  from cholesky_shape [OF U] lP have "length U = state_vector_dim"
    "list_all (\<lambda>r. length r = state_vector_dim) U"
    by (simp_all add: mat_scale_def)
  with lx s show thesis by (intro that)
qed

lemma Wm_explicit:
  "Wm = (- 99) # replicate (2 * state_vector_dim) (25 / 6)"
  by (simp add: Wm_def sigma_lambda_def sigma_alpha_def sigma_kappa_def state_vector_dim_def
      power2_eq_square)

lemma weighted_mean_affine:
  assumes F: "length F = state_vector_dim" "list_all (\<lambda>row. length row = state_vector_dim) F"
    and c: "length c = state_vector_dim"
    and x: "length x = state_vector_dim"
    and U: "length U = state_vector_dim" "list_all (\<lambda>r. length r = state_vector_dim) U"
  shows "weighted_sum state_vector_dim Wm
           (map (\<lambda>s. vadd (mat_vec F s) c) (x # map (vadd x) U @ map (vsub x) U))
         = vadd (mat_vec F x) c"
proof (rule nth_equalityI)
  let ?g = "\<lambda>s. vadd (mat_vec F s) c"
  let ?sig = "x # map (vadd x) U @ map (vsub x) U"
  have all: "list_all (\<lambda>v. length v = state_vector_dim) (map ?g ?sig)"
    using F c by (auto simp: list_all_iff)
  have lg: "length (?g x) = state_vector_dim"
    using F c by simp
  show len: "length (weighted_sum state_vector_dim Wm (map ?g ?sig)) = length (?g x)"
    by (simp only: weighted_sum_length [OF all] lg)
  fix j assume "j < length (weighted_sum state_vector_dim Wm (map ?g ?sig))"
  then have j: "j < state_vector_dim"
    by (simp only: weighted_sum_length [OF all])
  let ?h = "\<lambda>s. ?g s ! j"
  have row: "length (F ! j) = state_vector_dim"
    using F j by (simp add: list_all_length)
  have h: "?h s = inner_prod (F ! j) s + c ! j" for s
    using F c j by (simp add: nth_vadd nth_mat_vec)
  have sym: "?h (vadd x r) + ?h (vsub x r) = 2 * ?h x" if "r \<in> set U" for r
  proof -
    from that U have "length r = state_vector_dim" by (simp add: list_all_iff)
    with x row show ?thesis
      unfolding h by (simp add: inner_prod_vadd inner_prod_vsub)
  qed
  have "weighted_sum state_vector_dim Wm (map ?g ?sig) ! j
      = sum_list (map2 (\<lambda>w v. w * v ! j) Wm (map ?g ?sig))"
    by (rule weighted_sum_nth [OF all j])
  also have "\<dots> = sum_list (map2 (\<lambda>w v. w * ?h v) Wm ?sig)"
    by (simp only: zip_map2 map_map o_def split_def fst_conv snd_conv)
  also have "\<dots> = (- 99 + 2 * real state_vector_dim * (25 / 6)) * ?h x"
    unfolding Wm_explicit using U(1) sym by (rule sigma_sum)
  also have "\<dots> = ?h x"
    by (simp add: state_vector_dim_def)
  finally show "weighted_sum state_vector_dim Wm (map ?g ?sig) ! j = ?g x ! j" .
qed

subsection \<open>The process model is affine in the propagated state\<close>

lemma apply_rotation_matrix_length:
  "apply_rotation_matrix st u = Inr g \<Longrightarrow> length g = 3"
  by (auto simp: apply_rotation_matrix_def bindE_def np_dot_def rotation_matrix_def
      split: sum.splits if_splits)

lemma apply_rotation_matrix_defined:
  "9 \<le> length st \<Longrightarrow> length u = 3 \<Longrightarrow> \<exists>g. apply_rotation_matrix st u = Inr g"
  by (simp add: apply_rotation_matrix_def np_index_def np_dot_def rotation_matrix_def)

lemma apply_rotation_matrix_level:
  "apply_rotation_matrix [a0, a1, a2, a3, a4, a5, 0, 0, 0, a9, a10, a11] [b0, b1, b2]
     = Inr [b0, b1, b2]"
  by (simp add: apply_rotation_matrix_def np_index_def deg2rad_def rotation_matrix_def
      np_dot_def inner_prod_def)

lemma transition_matrix_shape:
  "length (transition_matrix dt) = state_vector_dim"
  "list_all (\<lambda>row. length row = state_vector_dim) (transition_matrix dt)"
  by (simp_all add: transition_matrix_explicit state_vector_dim_def)

lemma state_transition_function_explicit:
  assumes "x = [a0, a1, a2, a3, a4, a5, a6, a7, a8, a9, a10, a11]"
    and "apply_rotation_matrix ukf_mean u = Inr [g0, g1, g2]"
  shows "state_transition_function ukf_mean x dt u =
    Inr [a0 + dt * a3, a1 + dt * a4, a2 + dt * a5,
         a3 + dt * g0, a4 + dt * g1, a5 + dt * g2,
         a6 + dt * a9, a7 + dt * a10, a8 + dt * a11,
         a9, a10, a11]"
  by (simp add: state_transition_function_def assms transition_matrix_explicit
      np_dot_def inner_prod_def vadd_def smul_def)

lemma state_transition_function_affine:
  assumes "apply_rotation_matrix st u = Inr g" "length s = state_vector_dim"
  shows "state_transition_function st s dt u =
    Inr (vadd (mat_vec (transition_matrix dt) s)
          [0, 0, 0, dt * g ! 0, dt * g ! 1, dt * g ! 2, 0, 0, 0, 0, 0, 0])"
proof -
  from apply_rotation_matrix_length [OF assms(1)] obtain g0 g1 g2 where g: "g = [g0, g1, g2]"
    by (rule length3_explicit)
  have "np_dot (transition_matrix dt) s = Inr (mat_vec (transition_matrix dt) s)"
    using transition_matrix_shape(2) [of dt] assms(2) by (simp add: np_dot_def mat_vec_def)
  then show ?thesis
    by (simp add: state_transition_function_def assms(1) g smul_def)
qed

lemma state_transition_function_dt0:
  assumes "state_transition_function st x 0 u = Inr y"
  shows "y = x"
proof -
  from assms obtain g where g: "apply_rotation_matrix st u = Inr g"
    by (auto simp: state_transition_function_def bindE_def split: sum.splits)
  from assms g have "np_dot (transition_matrix 0) x \<noteq> Inl ValueError"
    by (auto simp: state_transition_function_def Let_def)
  then have "length x = 12"
    by (auto simp: np_dot_def transition_matrix_explicit split: if_splits)
  then obtain a0 a1 a2 a3 a4 a5 a6 a7 a8 a9 a10 a11
    where x: "x = [a0, a1, a2, a3, a4, a5, a6, a7, a8, a9, a10, a11]"
    by (rule length12_explicit)
  from apply_rotation_matrix_length [OF g] obtain g0 g1 g2 where "g = [g0, g1, g2]"
    by (rule length3_explicit)
  with assms g show ?thesis
    by (simp add: state_transition_function_def x transition_matrix_explicit
        np_dot_def inner_prod_def vadd_def smul_def)
qed

lemma mapE_total:
  "(\<And>s. s \<in> set xs \<Longrightarrow> f s = Inr (g s)) \<Longrightarrow> mapE f xs = Inr (map g xs)"
  by (induction xs) simp_all

lemma mapE_Cons_Inr:
  "mapE f (a # as) = Inr bs \<Longrightarrow> \<exists>b. f a = Inr b"
  by (auto simp: bindE_def split: sum.splits)

text \<open>
  The predicted mean is the process model applied to the stored mean: the sigma points are
  symmetric about it, the weights of the mean add up to one, and the process model is
  affine in the propagated state (the control term does not depend on it).
\<close>

lemma filter_predict_mean:
  assumes sp: "sigma_points (ukf_x k) (ukf_P k) = Inr sigmas"
    and rot: "apply_rotation_matrix (ukf_x k) u = Inr g"
  shows "\<exists>y P' F'. state_transition_function (ukf_x k) (ukf_x k) dt u = Inr y \<and>
           filter_predict state_transition_function (Some dt) u k
             = (Returned, k\<lparr>ukf_x := y, ukf_P := P', ukf_sigmas_f := F'\<rparr>)"
proof -
  let ?x = "ukf_x k"
  define c where "c = [0, 0, 0, dt * g ! 0, dt * g ! 1, dt * g ! 2, 0, 0, 0, 0, 0, 0]"
  define gf where "gf = (\<lambda>s. vadd (mat_vec (transition_matrix dt) s) c)"
  from sp obtain U where x: "length ?x = state_vector_dim"
    and U: "length U = state_vector_dim" "list_all (\<lambda>r. length r = state_vector_dim) U"
    and sig: "sigmas = ?x # map (vadd ?x) U @ map (vsub ?x) U"
    by (rule sigma_points_shape)
  have lens: "length s = state_vector_dim" if "s \<in> set sigmas" for s
    using that x U(2) by (auto simp: sig list_all_iff)
  have fx: "state_transition_function ?x s dt u = Inr (gf s)" if "s \<in> set sigmas" for s
    unfolding gf_def c_def using rot lens [OF that] by (rule state_transition_function_affine)
  have m: "mapE (\<lambda>s. state_transition_function ?x s dt u) sigmas = Inr (map gf sigmas)"
    using fx by (rule mapE_total)
  have c: "length c = state_vector_dim"
    by (simp add: state_vector_dim_def c_def)
  have all: "list_all (\<lambda>s. length s = state_vector_dim) (map gf sigmas)"
    using transition_matrix_shape(1) [of dt] c by (simp add: list_all_iff gf_def)
  have mean: "weighted_sum state_vector_dim Wm (map gf sigmas) = gf ?x"
    unfolding sig gf_def
    by (rule weighted_mean_affine [OF transition_matrix_shape c x U])
  have y: "state_transition_function ?x ?x dt u = Inr (gf ?x)"
    unfolding gf_def c_def using rot x by (rule state_transition_function_affine)
  have "filter_predict state_transition_function (Some dt) u k
      = (Returned, k\<lparr>ukf_x := gf ?x,
           ukf_P := snd (unscented_transform state_vector_dim (map gf sigmas) (ukf_Q k)),
           ukf_sigmas_f := map gf sigmas\<rparr>)"
    by (simp add: filter_predict_def sp m all unscented_transform_def Let_def mean)
  with y show ?thesis by blast
qed

lemma filter_predict_result:
  assumes "filter_predict state_transition_function (Some dt) u k = (r, k')"
  shows "(\<exists>e. r = Raised e \<and> k' = k)
       \<or> (r = Returned \<and> state_transition_function (ukf_x k) (ukf_x k) dt u = Inr (ukf_x k'))"
proof (cases "bindE (sigma_points (ukf_x k) (ukf_P k))
    (mapE (\<lambda>s. state_transition_function (ukf_x k) s dt u))")
  case (Inl e)
  with assms show ?thesis by (auto simp: filter_predict_def)
next
  case (Inr sigmas_f)
  then obtain sigmas where sp: "sigma_points (ukf_x k) (ukf_P k) = Inr sigmas"
    and m: "mapE (\<lambda>s. state_transition_function (ukf_x k) s dt u) sigmas = Inr sigmas_f"
    by (auto simp: bindE_def split: sum.splits)
  from sp obtain U where "sigmas = ukf_x k # map (vadd (ukf_x k)) U @ map (vsub (ukf_x k)) U"
    by (rule sigma_points_shape)
  with m obtain b where "state_transition_function (ukf_x k) (ukf_x k) dt u = Inr b"
    using mapE_Cons_Inr by fastforce
  then obtain g where rot: "apply_rotation_matrix (ukf_x k) u = Inr g"
    by (auto simp: state_transition_function_def bindE_def split: sum.splits)
  from filter_predict_mean [OF sp rot, of dt] obtain y P' F'
    where y: "state_transition_function (ukf_x k) (ukf_x k) dt u = Inr y"
      and r: "filter_predict state_transition_function (Some dt) u k
             = (Returned, k\<lparr>ukf_x := y, ukf_P := P', ukf_sigmas_f := F'\<rparr>)"
    by blast
  from assms r y show ?thesis by auto
qed

subsection \<open>The filter as constructed, evaluated\<close>

lemma upt12: "[0..<12] = [0, 1, 2, 3, 4, 5, 6, 7, 8, 9, 10, 11 :: nat]"
  by (simp add: upt_rec)

lemma initial_P_explicit:
  "ukf_P initial_ukf =
    [[1/10, 0, 0, 0, 0, 0, 0, 0, 0, 0, 0, 0],
     [0, 1/10, 0, 0, 0, 0, 0, 0, 0, 0, 0, 0],
     [0, 0, 1/10, 0, 0, 0, 0, 0, 0, 0, 0, 0],
     [0, 0, 0, 1/5, 0, 0, 0, 0, 0, 0, 0, 0],
     [0, 0, 0, 0, 1/5, 0, 0, 0, 0, 0, 0, 0],
     [0, 0, 0, 0, 0, 1/5, 0, 0, 0, 0, 0, 0],
     [0, 0, 0, 0, 0, 0, 1, 0, 0, 0, 0, 0],
     [0, 0, 0, 0, 0, 0, 0, 1, 0, 0, 0, 0],
     [0, 0, 0, 0, 0, 0, 0, 0, 1, 0, 0, 0],
     [0, 0, 0, 0, 0, 0, 0, 0, 0, 1, 0, 0],
     [0, 0, 0, 0, 0, 0, 0, 0, 0, 0, 1, 0],
     [0, 0, 0, 0, 0, 0, 0, 0, 0, 0, 0, 1]]"
  by (simp add: initial_ukf_def np_diag_def upt12)

lemma initial_x_explicit: "ukf_x initial_ukf = [0,0,0,0,0,0,0,0,0,0,0,0]"
  by (simp add: initial_ukf_def state_vector_dim_def eval_nat_numeral)

lemma sigma_lambda_value: "sigma_lambda = - (297 / 25)"
  by (simp add: sigma_lambda_def sigma_alpha_def sigma_kappa_def state_vector_dim_def power2_eq_square)

lemma scale_factor: "sigma_lambda + real state_vector_dim = 3 / 25"
  by (simp add: sigma_lambda_def sigma_alpha_def sigma_kappa_def state_vector_dim_def power2_eq_square)

lemma cholesky_initial:
  "\<exists>U. cholesky (mat_scale (sigma_lambda + real state_vector_dim) (ukf_P initial_ukf)) = Inr U"
  by (simp add: scale_factor initial_P_explicit mat_scale_def smul_def cholesky_def
      cholesky_row_def upt12 Let_def eval_nat_numeral)

lemma sigma_points_initial_P:
  assumes "length x = 12"
  shows "\<exists>sigmas. sigma_points x (ukf_P initial_ukf) = Inr sigmas"
proof -
  from cholesky_initial obtain U
    where "cholesky (mat_scale (sigma_lambda + real state_vector_dim) (ukf_P initial_ukf)) = Inr U"
    by blast
  moreover have "length (ukf_P initial_ukf) = 12"
    by (simp add: initial_P_explicit)
  ultimately show ?thesis
    using assms by (simp add: sigma_points_def state_vector_dim_def)
qed

lemma Wc_explicit: "Wc = (- 9601 / 100) # replicate 24 (25 / 6)"
  by (simp add: Wc_def sigma_lambda_value sigma_alpha_def sigma_beta_def state_vector_dim_def power2_eq_square)

lemma Wm_numeric: "Wm = (- 99) # replicate 24 (25 / 6)"
  by (simp add: Wm_def sigma_lambda_value state_vector_dim_def)

lemma predict_moving:
  "\<exists>P' F'. filter_predict state_transition_function (Some d) [0, 0, 0]
          (initial_ukf\<lparr>ukf_x := [0, 0, 0, 1, 0, 0, 0, 0, 0, 0, 0, 0]\<rparr>)
        = (Returned, initial_ukf\<lparr>ukf_x := [d, 0, 0, 1, 0, 0, 0, 0, 0, 0, 0, 0], ukf_P := P', ukf_sigmas_f := F'\<rparr>)"
proof -
  let ?x = "[0, 0, 0, 1, 0, 0, 0, 0, 0, 0, 0, 0 :: real]"
  define k where "k = initial_ukf\<lparr>ukf_x := ?x\<rparr>"
  from sigma_points_initial_P [of ?x] obtain sigmas
    where sp: "sigma_points (ukf_x k) (ukf_P k) = Inr sigmas"
    by (auto simp: k_def)
  have rot: "apply_rotation_matrix (ukf_x k) [0, 0, 0] = Inr [0, 0, 0]"
    by (simp add: k_def apply_rotation_matrix_level)
  from filter_predict_mean [OF sp rot, of d] obtain y P' F'
    where y: "state_transition_function (ukf_x k) (ukf_x k) d [0, 0, 0] = Inr y"
      and r: "filter_predict state_transition_function (Some d) [0, 0, 0] k
             = (Returned, k\<lparr>ukf_x := y, ukf_P := P', ukf_sigmas_f := F'\<rparr>)"
    by blast
  from y have "y = [d, 0, 0, 1, 0, 0, 0, 0, 0, 0, 0, 0]"
    by (simp add: k_def state_transition_function_explicit [OF refl apply_rotation_matrix_level])
  with r show ?thesis
    by (auto simp: k_def)
qed

text \<open>
  An update on the filter as constructed: the stored sigma points are all zero, so are the
  cross covariance and the gain, and the filter is left as it was.
\<close>

lemma upt3: "[0..<3] = [0, 1, 2 :: nat]"
  by (simp add: upt_rec)

lemma initial_sigmas_f:
  "ukf_sigmas_f initial_ukf = replicate 25 [0, 0, 0, 0, 0, 0, 0, 0, 0, 0, 0, 0]"
  by (simp add: initial_ukf_def zero_mat_def state_vector_dim_def eval_nat_numeral)

lemma initial_ukf_unchanged:
  "initial_ukf\<lparr>ukf_x := [0, 0, 0, 0, 0, 0, 0, 0, 0, 0, 0, 0], ukf_P := ukf_P initial_ukf\<rparr>
     = initial_ukf"
  by (simp add: initial_ukf_def state_vector_dim_def eval_nat_numeral)

lemma filter_update_rpy_unpredicted:
  "filter_update measurement_function_rpy [z0, z1, z2] measurement_cov_rpy initial_ukf
     = (Returned, initial_ukf)"
proof -
  have "filter_update measurement_function_rpy [z0, z1, z2] measurement_cov_rpy initial_ukf
     = (Returned, initial_ukf\<lparr>ukf_x := [0, 0, 0, 0, 0, 0, 0, 0, 0, 0, 0, 0],
          ukf_P := ukf_P initial_ukf\<rparr>)"
    unfolding filter_update_def initial_sigmas_f
    by (simp add: measurement_function_rpy_def np_dot_def inner_prod_def
     measurement_cov_rpy_def np_diag_def unscented_transform_def Wm_numeric Wc_explicit weighted_sum_def 
     weighted_outer_sum_def outer_def mat_scale_def smul_def vadd_def vsub_def madd_def msub_def zero_mat_def
     mat_inv_def minor_mat_def drop_nth_def mat_mul_def transpose_mat_def mat_vec_def
     initial_x_explicit initial_P_explicit state_vector_dim_def upt12 upt3 eval_nat_numeral Let_def)
  then show ?thesis by (simp only: initial_ukf_unchanged)
qed

lemma filter_update_flow_unpredicted:
  "filter_update measurement_function_optical_flow [z0, z1, z2] measurement_cov_optical_flow
     initial_ukf = (Returned, initial_ukf)"
proof -
  have "filter_update measurement_function_optical_flow [z0, z1, z2]
      measurement_cov_optical_flow initial_ukf
     = (Returned, initial_ukf\<lparr>ukf_x := [0, 0, 0, 0, 0, 0, 0, 0, 0, 0, 0, 0],
          ukf_P := ukf_P initial_ukf\<rparr>)"
    unfolding filter_update_def initial_sigmas_f
    by (simp add: measurement_function_optical_flow_def np_dot_def inner_prod_def
     measurement_cov_optical_flow_def np_diag_def unscented_transform_def Wm_numeric Wc_explicit weighted_sum_def 
     weighted_outer_sum_def outer_def mat_scale_def smul_def vadd_def vsub_def madd_def msub_def zero_mat_def
     mat_inv_def minor_mat_def drop_nth_def mat_mul_def transpose_mat_def mat_vec_def
     initial_x_explicit initial_P_explicit state_vector_dim_def upt12 upt3 eval_nat_numeral Let_def)
  then show ?thesis by (simp only: initial_ukf_unchanged)
qed

lemma filter_update_ir_unpredicted:
  "filter_update measurement_function_ir [r] measurement_cov_ir initial_ukf
     = (Returned, initial_ukf)"
proof -
  have "filter_update measurement_function_ir [r] measurement_cov_ir initial_ukf
     = (Returned, initial_ukf\<lparr>ukf_x := [0, 0, 0, 0, 0, 0, 0, 0, 0, 0, 0, 0],
          ukf_P := ukf_P initial_ukf\<rparr>)"
    unfolding filter_update_def initial_sigmas_f
    by (simp add: measurement_function_ir_def np_index_def deg2rad_def np_dot_def inner_prod_def
     measurement_cov_ir_def unscented_transform_def Wm_numeric Wc_explicit weighted_sum_def 
     weighted_outer_sum_def outer_def mat_scale_def smul_def vadd_def vsub_def madd_def msub_def zero_mat_def
     mat_inv_def minor_mat_def drop_nth_def mat_mul_def transpose_mat_def mat_vec_def
     initial_x_explicit initial_P_explicit state_vector_dim_def upt12 eval_nat_numeral Let_def)
  then show ?thesis by (simp only: initial_ukf_unchanged)
qed

subsection \<open>The steps of a callback\<close>

lemma update_input_time_Some:
  assumes "last_state_transition_time s = Some t"
  shows "update_input_time stamp s =
    (Returned, s\<lparr>last_time_secs := Some (secs stamp), last_time_nsecs := Some (nsecs stamp),
                  self_dt := Some (stamp_to_secs stamp - t),
                  last_state_transition_time := Some (stamp_to_secs stamp)\<rparr>)"
  using assms by (simp add: update_input_time_def Let_def)

lemma update_input_time_frame:
  "last_control_input (snd (update_input_time stamp s)) = last_control_input s"
  "ukf (snd (update_input_time stamp s)) = ukf s"
  by (simp_all add: update_input_time_def Let_def split: option.splits)

lemma ukf_predict_ukf:
  "ukf (snd (ukf_predict lib s))
     = snd (lib_predict lib state_transition_function (self_dt s) (last_control_input s) (ukf s))"
  by (simp add: ukf_predict_def split: prod.splits outcome.splits)

lemma ukf_predict_frame:
  "last_control_input (snd (ukf_predict lib s)) = last_control_input s"
  "last_state_transition_time (snd (ukf_predict lib s)) = last_state_transition_time s"
  by (simp_all add: ukf_predict_def split: prod.splits outcome.splits)

lemma ukf_predict_sets_flag:
  "fst (ukf_predict lib s) = Returned \<Longrightarrow> computed_first_prior (snd (ukf_predict lib s))"
  by (cases "lib_predict lib state_transition_function (self_dt s) (last_control_input s) (ukf s)")
    (auto simp: ukf_predict_def split: outcome.splits)

lemma measurement_update_frame:
  "last_control_input (snd (measurement_update lib z hx R s)) = last_control_input s"
  "last_state_transition_time (snd (measurement_update lib z hx R s)) = last_state_transition_time s"
  "computed_first_prior (snd (measurement_update lib z hx R s)) = computed_first_prior s"
  by (simp_all add: measurement_update_def split: prod.splits)

lemma time_then_predict_ukf:
  assumes "last_state_transition_time s = Some t"
  shows "ukf (snd (and_then (update_input_time stamp s) (ukf_predict lib)))
    = snd (lib_predict lib state_transition_function (Some (stamp_to_secs stamp - t))
             (last_control_input s) (ukf s))"
  by (simp add: update_input_time_Some [OF assms] and_then_def ukf_predict_ukf)

text \<open>
  The flag \<^verbatim>\<open>computed_first_prior\<close> is written and never read: a step started with another
  value of the flag has the same outcome and, but for the flag, the same final state.
\<close>

lemma update_input_time_flag:
  "update_input_time stamp (s\<lparr>computed_first_prior := b\<rparr>)
     = (fst (update_input_time stamp s),
        (snd (update_input_time stamp s))\<lparr>computed_first_prior := b\<rparr>)"
  by (simp add: update_input_time_def Let_def split: option.splits)

lemma ukf_predict_flag:
  "\<exists>c. ukf_predict lib (s\<lparr>computed_first_prior := b\<rparr>)
     = (fst (ukf_predict lib s), (snd (ukf_predict lib s))\<lparr>computed_first_prior := c\<rparr>)"
proof (cases "lib_predict lib state_transition_function (self_dt s) (last_control_input s) (ukf s)")
  case (Pair r k)
  show ?thesis
  proof (cases r)
    case Returned
    with Pair have "ukf_predict lib (s\<lparr>computed_first_prior := b\<rparr>)
      = (fst (ukf_predict lib s), (snd (ukf_predict lib s))\<lparr>computed_first_prior := True\<rparr>)"
      by (simp add: ukf_predict_def)
    then show ?thesis ..
  next
    case (Raised e)
    with Pair have "ukf_predict lib (s\<lparr>computed_first_prior := b\<rparr>)
      = (fst (ukf_predict lib s), (snd (ukf_predict lib s))\<lparr>computed_first_prior := b\<rparr>)"
      by (simp add: ukf_predict_def)
    then show ?thesis ..
  qed
qed

lemma measurement_update_flag:
  "measurement_update lib z hx R (s\<lparr>computed_first_prior := b\<rparr>)
     = (fst (measurement_update lib z hx R s),
        (snd (measurement_update lib z hx R s))\<lparr>computed_first_prior := b\<rparr>)"
  by (simp add: measurement_update_def split: prod.splits)

lemma and_then_flag:
  assumes r: "r' = (fst r, (snd r)\<lparr>computed_first_prior := c\<rparr>)"
    and g: "\<And>s c. \<exists>c'. g (s\<lparr>computed_first_prior := c\<rparr>)
              = (fst (g s), (snd (g s))\<lparr>computed_first_prior := c'\<rparr>)"
  shows "\<exists>c'. and_then r' g
           = (fst (and_then r g), (snd (and_then r g))\<lparr>computed_first_prior := c'\<rparr>)"
proof (cases r)
  case (Pair out s0)
  show ?thesis
  proof (cases out)
    case Returned
    with Pair r g [where s = s0 and c = c] show ?thesis by (simp add: and_then_def)
  next
    case (Raised e)
    with Pair r have "and_then r' g
           = (fst (and_then r g), (snd (and_then r g))\<lparr>computed_first_prior := c\<rparr>)"
      by (simp add: and_then_def)
    then show ?thesis ..
  qed
qed

lemma predict_then_update_flag:
  "\<exists>c'. and_then (ukf_predict lib (s\<lparr>computed_first_prior := c\<rparr>)) (measurement_update lib z hx R)
     = (fst (and_then (ukf_predict lib s) (measurement_update lib z hx R)),
        (snd (and_then (ukf_predict lib s) (measurement_update lib z hx R)))
          \<lparr>computed_first_prior := c'\<rparr>)"
proof -
  from ukf_predict_flag [where lib = lib and s = s and b = c] obtain c1
    where "ukf_predict lib (s\<lparr>computed_first_prior := c\<rparr>)
     = (fst (ukf_predict lib s), (snd (ukf_predict lib s))\<lparr>computed_first_prior := c1\<rparr>)" ..
  then show ?thesis
  proof (rule and_then_flag)
    fix s' c'
    show "\<exists>c''. measurement_update lib z hx R (s'\<lparr>computed_first_prior := c'\<rparr>)
       = (fst (measurement_update lib z hx R s'),
          (snd (measurement_update lib z hx R s'))\<lparr>computed_first_prior := c''\<rparr>)"
      using measurement_update_flag [where lib = lib and s = s' and b = c'] by blast
  qed
qed

lemma ir_data_callback_flag:
  "\<exists>c. ir_data_callback lib d (s\<lparr>computed_first_prior := b\<rparr>)
     = (fst (ir_data_callback lib d s), (snd (ir_data_callback lib d s))\<lparr>computed_first_prior := c\<rparr>)"
  unfolding ir_data_callback_def Let_def
  by (rule and_then_flag [OF update_input_time_flag]) (rule predict_then_update_flag)

lemma optical_flow_data_callback_flag:
  "\<exists>c. optical_flow_data_callback lib d (s\<lparr>computed_first_prior := b\<rparr>)
     = (fst (optical_flow_data_callback lib d s),
        (snd (optical_flow_data_callback lib d s))\<lparr>computed_first_prior := c\<rparr>)"
  unfolding optical_flow_data_callback_def Let_def
  by (rule and_then_flag [OF update_input_time_flag]) (rule predict_then_update_flag)

lemma imu_data_callback_flag:
  "\<exists>c. imu_data_callback lib d (s\<lparr>computed_first_prior := b\<rparr>)
     = (fst (imu_data_callback lib d s),
        (snd (imu_data_callback lib d s))\<lparr>computed_first_prior := c\<rparr>)"
proof -
  obtain ax ay az where a: "linear_acceleration d = (ax, ay, az)"
    by (cases "linear_acceleration d") auto
  obtain roll pitch yaw where e: "euler_from_quaternion lib (orientation d) = (roll, pitch, yaw)"
    by (cases "euler_from_quaternion lib (orientation d)") auto
  have swap: "s'\<lparr>computed_first_prior := c, last_control_input := u\<rparr>
      = s'\<lparr>last_control_input := u\<rparr>\<lparr>computed_first_prior := c\<rparr>" for s' :: StateEstimation and c u
    by simp
  show ?thesis
    unfolding imu_data_callback_def Let_def a e prod.case
    by (rule and_then_flag [OF update_input_time_flag])
      (simp only: swap predict_then_update_flag)
qed

text \<open>
  A callback on an estimator that has a timestamp, written out: the time update, the call
  of the library's predict, and the measurement update on what it returned.
\<close>

lemma measurement_update_unpredicted:
  assumes "ukf s = initial_ukf"
  shows "measurement_update filter_model [z0, z1, z2] measurement_function_rpy
           measurement_cov_rpy s = (Returned, s)"
    and "measurement_update filter_model [z0, z1, z2] measurement_function_optical_flow
           measurement_cov_optical_flow s = (Returned, s)"
    and "measurement_update filter_model [r] measurement_function_ir measurement_cov_ir s
           = (Returned, s)"
proof -
  have s: "s\<lparr>ukf := initial_ukf\<rparr> = s"
    using assms by (cases s) simp
  show "measurement_update filter_model [z0, z1, z2] measurement_function_rpy
           measurement_cov_rpy s = (Returned, s)"
    by (simp add: measurement_update_def filter_model_def assms filter_update_rpy_unpredicted s)
  show "measurement_update filter_model [z0, z1, z2] measurement_function_optical_flow
           measurement_cov_optical_flow s = (Returned, s)"
    by (simp add: measurement_update_def filter_model_def assms filter_update_flow_unpredicted s)
  show "measurement_update filter_model [r] measurement_function_ir measurement_cov_ir s
           = (Returned, s)"
    by (simp add: measurement_update_def filter_model_def assms filter_update_ir_unpredicted s)
qed

lemma ir_data_callback_Some:
  assumes "last_state_transition_time s = Some t"
  shows "ir_data_callback lib ir s =
     (let dt = stamp_to_secs (range_stamp ir) - t;
          s1 = s\<lparr>last_time_secs := Some (secs (range_stamp ir)),
                  last_time_nsecs := Some (nsecs (range_stamp ir)),
                  self_dt := Some dt,
                  last_state_transition_time := Some (stamp_to_secs (range_stamp ir))\<rparr>
      in case lib_predict lib state_transition_function (Some dt) (last_control_input s) (ukf s) of
           (Returned, k) \<Rightarrow>
             measurement_update lib [range_value ir] measurement_function_ir measurement_cov_ir
               (s1\<lparr>ukf := k, computed_first_prior := True\<rparr>)
         | (Raised e, k) \<Rightarrow> (Raised e, s1\<lparr>ukf := k\<rparr>))"
proof -
  obtain r k where lp: "lib_predict lib state_transition_function
      (Some (stamp_to_secs (range_stamp ir) - t)) (last_control_input s) (ukf s) = (r, k)"
    by (cases "lib_predict lib state_transition_function
      (Some (stamp_to_secs (range_stamp ir) - t)) (last_control_input s) (ukf s)")
  show ?thesis
    by (cases r)
      (simp_all add: ir_data_callback_def update_input_time_Some [OF assms] and_then_simps
        ukf_predict_def lp Let_def)
qed

lemma optical_flow_data_callback_Some:
  assumes "last_state_transition_time s = Some t"
  shows "optical_flow_data_callback lib flow s =
     (let dt = stamp_to_secs (mode_stamp flow) - t;
          s1 = s\<lparr>last_time_secs := Some (secs (mode_stamp flow)),
                  last_time_nsecs := Some (nsecs (mode_stamp flow)),
                  self_dt := Some dt,
                  last_state_transition_time := Some (stamp_to_secs (mode_stamp flow))\<rparr>
      in case lib_predict lib state_transition_function (Some dt) (last_control_input s) (ukf s) of
           (Returned, k) \<Rightarrow>
             measurement_update lib [x_velocity flow, y_velocity flow, yaw_velocity flow]
               measurement_function_optical_flow measurement_cov_optical_flow
               (s1\<lparr>ukf := k, computed_first_prior := True\<rparr>)
         | (Raised e, k) \<Rightarrow> (Raised e, s1\<lparr>ukf := k\<rparr>))"
proof -
  obtain r k where lp: "lib_predict lib state_transition_function
      (Some (stamp_to_secs (mode_stamp flow) - t)) (last_control_input s) (ukf s) = (r, k)"
    by (cases "lib_predict lib state_transition_function
      (Some (stamp_to_secs (mode_stamp flow) - t)) (last_control_input s) (ukf s)")
  show ?thesis
    by (cases r)
      (simp_all add: optical_flow_data_callback_def update_input_time_Some [OF assms]
        and_then_simps ukf_predict_def lp Let_def)
qed

lemma imu_data_callback_Some:
  assumes "last_state_transition_time s = Some t"
  shows "imu_data_callback lib imu s =
     (let dt = stamp_to_secs (imu_stamp imu) - t;
          u = (case linear_acceleration imu of (ax, ay, az) \<Rightarrow> [ax, ay, az]);
          s1 = s\<lparr>last_time_secs := Some (secs (imu_stamp imu)),
                  last_time_nsecs := Some (nsecs (imu_stamp imu)),
                  self_dt := Some dt,
                  last_state_transition_time := Some (stamp_to_secs (imu_stamp imu)),
                  last_control_input := u\<rparr>
      in case lib_predict lib state_transition_function (Some dt) u (ukf s) of
           (Returned, k) \<Rightarrow>
             measurement_update lib
               (case euler_from_quaternion lib (orientation imu) of
                  (roll, pitch, yaw) \<Rightarrow> [roll, pitch, yaw])
               measurement_function_rpy measurement_cov_rpy
               (s1\<lparr>ukf := k, computed_first_prior := True\<rparr>)
         | (Raised e, k) \<Rightarrow> (Raised e, s1\<lparr>ukf := k\<rparr>))"
proof -
  obtain ax ay az where a: "linear_acceleration imu = (ax, ay, az)"
    by (cases "linear_acceleration imu") auto
  obtain roll pitch yaw where e: "euler_from_quaternion lib (orientation imu) = (roll, pitch, yaw)"
    by (cases "euler_from_quaternion lib (orientation imu)") auto
  obtain r k where lp: "lib_predict lib state_transition_function
      (Some (stamp_to_secs (imu_stamp imu) - t)) [ax, ay, az] (ukf s) = (r, k)"
    by (cases "lib_predict lib state_transition_function
      (Some (stamp_to_secs (imu_stamp imu) - t)) [ax, ay, az] (ukf s)")
  show ?thesis
    by (cases r)
      (simp_all add: imu_data_callback_def update_input_time_Some [OF assms] and_then_simps
        ukf_predict_def a e lp Let_def)
qed

section \<open>The claims\<close>

subsection \<open>Geometric transform\<close>

text \<open>
  The matrix of the source and the product \<open>rotation_z(yaw) \<cdot> rotation_y(pitch) \<cdot>
  rotation_x(roll)\<close> agree in eight of nine entries: the entry of row 1, column 2 of the
  product is \<open>cos \<phi> sin \<theta> sin \<psi> - sin \<phi> cos \<psi>\<close>, where the source repeats the entry
  \<open>cos \<theta> sin \<phi>\<close> of row 2, column 1.
\<close>

lemma rotation_matrix_one_entry_off:
  "mat_mul 3 (rotation_z psi) (mat_mul 3 (rotation_y theta) (rotation_x phi))
   = (rotation_matrix phi theta psi)
       [1 := [cos theta * sin psi,
              sin phi * sin theta * sin psi + cos phi * cos psi,
              cos phi * sin theta * sin psi - sin phi * cos psi]]"
  by (simp add: mat_mul_def transpose_mat_def rotation_x_def rotation_y_def rotation_z_def
      rotation_matrix_def inner_prod_def upt_rec [of 0 3] eval_nat_numeral algebra_simps)

text \<open>
  C1. The claim: for every vector and every roll, pitch and yaw in degrees, the rotation the
  geometric transform applies is \<open>rotation_z(yaw) \<cdot> rotation_y(pitch) \<cdot> rotation_x(roll)\<close>.
  The source does not compute that product. With a stored roll of 90 degrees and no pitch
  or yaw, the body vector \<open>(0, 0, 1)\<close> is sent to \<open>(0, 1, 0)\<close> by \<^verbatim>\<open>apply_rotation_matrix\<close>
  and to \<open>(0, -1, 0)\<close> by the product of the three rotations.
\<close>

theorem apply_rotation_matrix_roll_90:
  "apply_rotation_matrix [0, 0, 0, 0, 0, 0, 90, 0, 0, 0, 0, 0] [0, 0, 1] = Inr [0, 1, 0]
   \<and> spec_rotate_to_global [0, 0, 1] 90 0 0 = [0, - 1, 0]"
  by (simp add: apply_rotation_matrix_def np_index_def deg2rad_def rotation_matrix_def
      np_dot_def inner_prod_def spec_rotate_to_global_def mat_vec_def rotation_x_def
      rotation_y_def rotation_z_def)

subsection \<open>First sensor arrival\<close>

text \<open>
  C2. The claim: the first arrival records its timestamp, predicts and updates nothing,
  leaves the zero state alone and raises no error. In the source every callback starts with
  \<^verbatim>\<open>update_input_time\<close>, which subtracts \<^verbatim>\<open>None\<close> from the new time: on the estimator as
  constructed each of the three callbacks raises \<^verbatim>\<open>TypeError\<close>, having assigned only
  \<^verbatim>\<open>last_time_secs\<close> and \<^verbatim>\<open>last_time_nsecs\<close>. The filter is untouched, but
  \<^verbatim>\<open>last_state_transition_time\<close> is still \<^verbatim>\<open>None\<close> afterwards, so the next arrival fails the
  same way.
\<close>

theorem first_arrival_raises:
  "imu_data_callback lib imu initial_state
     = (Raised TypeError,
        initial_state\<lparr>last_time_secs := Some (secs (imu_stamp imu)),
                       last_time_nsecs := Some (nsecs (imu_stamp imu))\<rparr>)
   \<and> optical_flow_data_callback lib flow initial_state
     = (Raised TypeError,
        initial_state\<lparr>last_time_secs := Some (secs (mode_stamp flow)),
                       last_time_nsecs := Some (nsecs (mode_stamp flow))\<rparr>)
   \<and> ir_data_callback lib ir initial_state
     = (Raised TypeError,
        initial_state\<lparr>last_time_secs := Some (secs (range_stamp ir)),
                       last_time_nsecs := Some (nsecs (range_stamp ir))\<rparr>)
   \<and> last_state_transition_time
        (initial_state\<lparr>last_time_secs := a, last_time_nsecs := b\<rparr>) = None"
  by (simp add: imu_data_callback_def optical_flow_data_callback_def ir_data_callback_def
      update_input_time_def and_then_def initial_state_def)

subsection \<open>Timing of the prediction\<close>

text \<open>
  The claim C3 says that an arrival whose \<open>dt\<close> is negative has its prediction rejected and
  leaves mean and covariance as they were. An estimator that last fused at 10 s and moves at
  1 m/s receives a reading stamped 9 s: \<^verbatim>\<open>update_input_time\<close> stores \<open>dt = -1\<close>,
  \<^verbatim>\<open>ukf_predict\<close> returns, and the stored position has gone from 0 to -1; the range callback
  goes on to its measurement update from that prior.
\<close>

theorem negative_dt_is_predicted:
  "last_state_transition_time moving_state = Some 10
   \<and> ukf_x (ukf moving_state) = [0, 0, 0, 1, 0, 0, 0, 0, 0, 0, 0, 0]
   \<and> self_dt (snd (update_input_time \<lparr>secs = 9, nsecs = 0\<rparr> moving_state)) = Some (- 1)
   \<and> fst (ukf_predict filter_model
            (snd (update_input_time \<lparr>secs = 9, nsecs = 0\<rparr> moving_state))) = Returned
   \<and> ukf_x (ukf (snd (ukf_predict filter_model
            (snd (update_input_time \<lparr>secs = 9, nsecs = 0\<rparr> moving_state)))))
       = [- 1, 0, 0, 1, 0, 0, 0, 0, 0, 0, 0, 0]
   \<and> ir_data_callback filter_model \<lparr>range_stamp = \<lparr>secs = 9, nsecs = 0\<rparr>, range_value = 1\<rparr>
        moving_state
       = measurement_update filter_model [1] measurement_function_ir measurement_cov_ir
           (snd (ukf_predict filter_model
              (snd (update_input_time \<lparr>secs = 9, nsecs = 0\<rparr> moving_state))))"
proof -
  have t: "last_state_transition_time moving_state = Some 10"
    by (simp add: moving_state_def)
  note s1 = update_input_time_Some [OF t, of "\<lparr>secs = 9, nsecs = 0\<rparr>"]
  have dt: "stamp_to_secs \<lparr>secs = 9, nsecs = 0\<rparr> - 10 = - 1"
    by (simp add: stamp_to_secs_def)
  from predict_moving [of "- 1"] obtain P' F'
    where p: "filter_predict state_transition_function (Some (- 1)) [0, 0, 0]
          (initial_ukf\<lparr>ukf_x := [0, 0, 0, 1, 0, 0, 0, 0, 0, 0, 0, 0]\<rparr>)
        = (Returned, initial_ukf\<lparr>ukf_x := [- 1, 0, 0, 1, 0, 0, 0, 0, 0, 0, 0, 0], ukf_P := P',
             ukf_sigmas_f := F'\<rparr>)"
    by blast
  have x: "ukf_x (ukf moving_state) = [0, 0, 0, 1, 0, 0, 0, 0, 0, 0, 0, 0]"
    by (simp add: moving_state_def)
  have u: "last_control_input moving_state = [0, 0, 0]" "self_dt moving_state = None"
    by (simp_all add: moving_state_def initial_state_def)
  have k: "ukf moving_state = initial_ukf\<lparr>ukf_x := [0, 0, 0, 1, 0, 0, 0, 0, 0, 0, 0, 0]\<rparr>"
    by (simp add: moving_state_def)
  have lp: "lib_predict filter_model = filter_predict"
    by (simp add: filter_model_def)
  show ?thesis
    by (simp add: ir_data_callback_def s1 dt t x u k lp p ukf_predict_def and_then_def)
qed

text \<open>
  C3, as the source has it. For every arrival on an estimator with a prior timestamp \<open>t\<close>,
  each of the three callbacks is exactly this: the times are stored, the library's predict
  is called with \<open>dt\<close> equal to the arrival's time minus \<open>t\<close>, whatever its sign, and with the
  control input (the stored one, or for an inertial reading the new one); if predict
  returns, the measurement update runs on the filter it gave back, and if it raises, so
  does the callback. No value of \<open>dt\<close> takes another path. With the filter of the
  specification, a predict that returns has replaced the mean by the process model applied
  to the old mean with that \<open>dt\<close>.
\<close>

theorem dt_handed_to_predict_unchecked:
  assumes "last_state_transition_time s = Some t"
  shows "ir_data_callback lib ir s =
     (let dt = stamp_to_secs (range_stamp ir) - t;
          s1 = s\<lparr>last_time_secs := Some (secs (range_stamp ir)),
                  last_time_nsecs := Some (nsecs (range_stamp ir)),
                  self_dt := Some dt,
                  last_state_transition_time := Some (stamp_to_secs (range_stamp ir))\<rparr>
      in case lib_predict lib state_transition_function (Some dt) (last_control_input s) (ukf s) of
           (Returned, k) \<Rightarrow>
             measurement_update lib [range_value ir] measurement_function_ir measurement_cov_ir
               (s1\<lparr>ukf := k, computed_first_prior := True\<rparr>)
         | (Raised e, k) \<Rightarrow> (Raised e, s1\<lparr>ukf := k\<rparr>))
   \<and> optical_flow_data_callback lib flow s =
     (let dt = stamp_to_secs (mode_stamp flow) - t;
          s1 = s\<lparr>last_time_secs := Some (secs (mode_stamp flow)),
                  last_time_nsecs := Some (nsecs (mode_stamp flow)),
                  self_dt := Some dt,
                  last_state_transition_time := Some (stamp_to_secs (mode_stamp flow))\<rparr>
      in case lib_predict lib state_transition_function (Some dt) (last_control_input s) (ukf s) of
           (Returned, k) \<Rightarrow>
             measurement_update lib [x_velocity flow, y_velocity flow, yaw_velocity flow]
               measurement_function_optical_flow measurement_cov_optical_flow
               (s1\<lparr>ukf := k, computed_first_prior := True\<rparr>)
         | (Raised e, k) \<Rightarrow> (Raised e, s1\<lparr>ukf := k\<rparr>))
   \<and> imu_data_callback lib imu s =
     (let dt = stamp_to_secs (imu_stamp imu) - t;
          u = (case linear_acceleration imu of (ax, ay, az) \<Rightarrow> [ax, ay, az]);
          s1 = s\<lparr>last_time_secs := Some (secs (imu_stamp imu)),
                  last_time_nsecs := Some (nsecs (imu_stamp imu)),
                  self_dt := Some dt,
                  last_state_transition_time := Some (stamp_to_secs (imu_stamp imu)),
                  last_control_input := u\<rparr>
      in case lib_predict lib state_transition_function (Some dt) u (ukf s) of
           (Returned, k) \<Rightarrow>
             measurement_update lib
               (case euler_from_quaternion lib (orientation imu) of
                  (roll, pitch, yaw) \<Rightarrow> [roll, pitch, yaw])
               measurement_function_rpy measurement_cov_rpy
               (s1\<lparr>ukf := k, computed_first_prior := True\<rparr>)
         | (Raised e, k) \<Rightarrow> (Raised e, s1\<lparr>ukf := k\<rparr>))
   \<and> (lib_predict filter_model state_transition_function (Some (stamp_to_secs stamp - t)) u
          (ukf s) = (Returned, k') \<longrightarrow>
        state_transition_function (ukf_x (ukf s)) (ukf_x (ukf s)) (stamp_to_secs stamp - t) u
          = Inr (ukf_x k'))"
proof (intro conjI impI)
  show "ir_data_callback lib ir s =
     (let dt = stamp_to_secs (range_stamp ir) - t;
          s1 = s\<lparr>last_time_secs := Some (secs (range_stamp ir)),
                  last_time_nsecs := Some (nsecs (range_stamp ir)),
                  self_dt := Some dt,
                  last_state_transition_time := Some (stamp_to_secs (range_stamp ir))\<rparr>
      in case lib_predict lib state_transition_function (Some dt) (last_control_input s) (ukf s) of
           (Returned, k) \<Rightarrow>
             measurement_update lib [range_value ir] measurement_function_ir measurement_cov_ir
               (s1\<lparr>ukf := k, computed_first_prior := True\<rparr>)
         | (Raised e, k) \<Rightarrow> (Raised e, s1\<lparr>ukf := k\<rparr>))"
    using assms by (rule ir_data_callback_Some)
  show "optical_flow_data_callback lib flow s =
     (let dt = stamp_to_secs (mode_stamp flow) - t;
          s1 = s\<lparr>last_time_secs := Some (secs (mode_stamp flow)),
                  last_time_nsecs := Some (nsecs (mode_stamp flow)),
                  self_dt := Some dt,
                  last_state_transition_time := Some (stamp_to_secs (mode_stamp flow))\<rparr>
      in case lib_predict lib state_transition_function (Some dt) (last_control_input s) (ukf s) of
           (Returned, k) \<Rightarrow>
             measurement_update lib [x_velocity flow, y_velocity flow, yaw_velocity flow]
               measurement_function_optical_flow measurement_cov_optical_flow
               (s1\<lparr>ukf := k, computed_first_prior := True\<rparr>)
         | (Raised e, k) \<Rightarrow> (Raised e, s1\<lparr>ukf := k\<rparr>))"
    using assms by (rule optical_flow_data_callback_Some)
  show "imu_data_callback lib imu s =
     (let dt = stamp_to_secs (imu_stamp imu) - t;
          u = (case linear_acceleration imu of (ax, ay, az) \<Rightarrow> [ax, ay, az]);
          s1 = s\<lparr>last_time_secs := Some (secs (imu_stamp imu)),
                  last_time_nsecs := Some (nsecs (imu_stamp imu)),
                  self_dt := Some dt,
                  last_state_transition_time := Some (stamp_to_secs (imu_stamp imu)),
                  last_control_input := u\<rparr>
      in case lib_predict lib state_transition_function (Some dt) u (ukf s) of
           (Returned, k) \<Rightarrow>
             measurement_update lib
               (case euler_from_quaternion lib (orientation imu) of
                  (roll, pitch, yaw) \<Rightarrow> [roll, pitch, yaw])
               measurement_function_rpy measurement_cov_rpy
               (s1\<lparr>ukf := k, computed_first_prior := True\<rparr>)
         | (Raised e, k) \<Rightarrow> (Raised e, s1\<lparr>ukf := k\<rparr>))"
    using assms by (rule imu_data_callback_Some)
next
  assume "lib_predict filter_model state_transition_function (Some (stamp_to_secs stamp - t)) u
          (ukf s) = (Returned, k')"
  then have "filter_predict state_transition_function (Some (stamp_to_secs stamp - t)) u
          (ukf s) = (Returned, k')"
    by (simp add: filter_model_def)
  from filter_predict_result [OF this]
  show "state_transition_function (ukf_x (ukf s)) (ukf_x (ukf s)) (stamp_to_secs stamp - t) u
          = Inr (ukf_x k')"
    by simp
qed

theorem dt_handed_to_predict_unchecked_witness:
  "last_state_transition_time moving_state = Some 10
   \<and> (\<exists>k'. ukf_x k' = [- (1 / 2), 0, 0, 1, 0, 0, 0, 0, 0, 0, 0, 0]
         \<and> state_transition_function [0, 0, 0, 1, 0, 0, 0, 0, 0, 0, 0, 0]
              [0, 0, 0, 1, 0, 0, 0, 0, 0, 0, 0, 0] (- (1 / 2)) [0, 0, 0] = Inr (ukf_x k')
         \<and> ir_data_callback filter_model
              \<lparr>range_stamp = \<lparr>secs = 9, nsecs = 500000000\<rparr>, range_value = 1\<rparr> moving_state
            = measurement_update filter_model [1] measurement_function_ir measurement_cov_ir
                (moving_state\<lparr>last_time_secs := Some 9, last_time_nsecs := Some 500000000,
                   self_dt := Some (- (1 / 2)), last_state_transition_time := Some (19 / 2),
                   ukf := k', computed_first_prior := True\<rparr>))"
proof -
  let ?ir = "\<lparr>range_stamp = \<lparr>secs = 9, nsecs = 500000000\<rparr>, range_value = 1\<rparr>"
  have t: "last_state_transition_time moving_state = Some 10"
    by (simp add: moving_state_def)
  have st: "stamp_to_secs \<lparr>secs = 9, nsecs = 500000000\<rparr> = 19 / 2"
    by (simp add: stamp_to_secs_def)
  have u: "last_control_input moving_state = [0, 0, 0]"
    and k: "ukf moving_state = initial_ukf\<lparr>ukf_x := [0, 0, 0, 1, 0, 0, 0, 0, 0, 0, 0, 0]\<rparr>"
    and lp: "lib_predict filter_model = filter_predict"
    by (simp_all add: moving_state_def initial_state_def filter_model_def)
  from predict_moving [of "- (1 / 2)"] obtain P' F'
    where p: "filter_predict state_transition_function (Some (- (1 / 2))) [0, 0, 0]
          (initial_ukf\<lparr>ukf_x := [0, 0, 0, 1, 0, 0, 0, 0, 0, 0, 0, 0]\<rparr>)
        = (Returned, initial_ukf\<lparr>ukf_x := [- (1 / 2), 0, 0, 1, 0, 0, 0, 0, 0, 0, 0, 0],
             ukf_P := P', ukf_sigmas_f := F'\<rparr>)"
    by blast
  define k' where "k' = initial_ukf\<lparr>ukf_x := [- (1 / 2), 0, 0, 1, 0, 0, 0, 0, 0, 0, 0, 0],
             ukf_P := P', ukf_sigmas_f := F'\<rparr>"
  have p': "lib_predict filter_model state_transition_function
      (Some (stamp_to_secs (range_stamp ?ir) - 10)) [0, 0, 0] (ukf moving_state) = (Returned, k')"
    using p by (simp add: lp k st k'_def)
  note T = dt_handed_to_predict_unchecked [OF t, where lib = filter_model and ir = ?ir
      and stamp = "range_stamp ?ir" and u = "[0, 0, 0]" and k' = k']
  from T have cb: "ir_data_callback filter_model ?ir moving_state =
     (let dt = stamp_to_secs (range_stamp ?ir) - 10;
          s1 = moving_state\<lparr>last_time_secs := Some (secs (range_stamp ?ir)),
                  last_time_nsecs := Some (nsecs (range_stamp ?ir)),
                  self_dt := Some dt,
                  last_state_transition_time := Some (stamp_to_secs (range_stamp ?ir))\<rparr>
      in case lib_predict filter_model state_transition_function (Some dt)
                (last_control_input moving_state) (ukf moving_state) of
           (Returned, k) \<Rightarrow>
             measurement_update filter_model [range_value ?ir] measurement_function_ir
               measurement_cov_ir (s1\<lparr>ukf := k, computed_first_prior := True\<rparr>)
         | (Raised e, k) \<Rightarrow> (Raised e, s1\<lparr>ukf := k\<rparr>))"
    by (rule conjunct1)
  from T p' have mean: "state_transition_function (ukf_x (ukf moving_state))
      (ukf_x (ukf moving_state)) (stamp_to_secs (range_stamp ?ir) - 10) [0, 0, 0]
        = Inr (ukf_x k')"
    by blast
  have x': "ukf_x k' = [- (1 / 2), 0, 0, 1, 0, 0, 0, 0, 0, 0, 0, 0]"
    by (simp add: k'_def)
  have "ir_data_callback filter_model ?ir moving_state
      = measurement_update filter_model [1] measurement_function_ir measurement_cov_ir
                (moving_state\<lparr>last_time_secs := Some 9, last_time_nsecs := Some 500000000,
                   self_dt := Some (- (1 / 2)), last_state_transition_time := Some (19 / 2),
                   ukf := k', computed_first_prior := True\<rparr>)"
    unfolding cb using p' by (simp add: u st Let_def)
  moreover from mean have "state_transition_function [0, 0, 0, 1, 0, 0, 0, 0, 0, 0, 0, 0]
              [0, 0, 0, 1, 0, 0, 0, 0, 0, 0, 0, 0] (- (1 / 2)) [0, 0, 0] = Inr (ukf_x k')"
    by (simp add: k st)
  ultimately show ?thesis
    using t x' by blast
qed

subsection \<open>Update before the first prediction\<close>

text \<open>
  The claim C4 says that an update invoked before any prediction is detected and rejected,
  mean and covariance untouched. On the estimator as constructed, whose flag
  \<^verbatim>\<open>computed_first_prior\<close> is \<^verbatim>\<open>False\<close>, the update statement of the inertial callback with the
  measurement \<open>(1, 0, 0)\<close> is not rejected: it returns as any update does. The estimator is
  left as it was.
\<close>

theorem update_before_predict_returns:
  "computed_first_prior initial_state = False
   \<and> ukf initial_state = initial_ukf
   \<and> measurement_update filter_model [1, 0, 0] measurement_function_rpy measurement_cov_rpy
        initial_state = (Returned, initial_state)"
  using measurement_update_unpredicted(1) [of initial_state 1 0 0]
  by (simp add: initial_state_def)

text \<open>
  C4, as the source has it. An update on a filter that has never predicted leaves the
  estimator, mean and covariance included, as it was, for each of the three observation
  models and every measurement; it returns normally, and nothing is detected or rejected:
  \<^verbatim>\<open>computed_first_prior\<close> is set by \<^verbatim>\<open>ukf_predict\<close> and read nowhere, so the measurement
  update and the three callbacks started with another value of the flag have the same
  outcome and leave the same filter. The order is kept by construction: each callback is
  the time update and \<^verbatim>\<open>ukf_predict\<close>, then the measurement update, which runs only when
  that prefix has returned, and then the flag is set.
\<close>

theorem first_prior_flag_never_read:
  "(ukf s = initial_ukf \<longrightarrow>
      measurement_update filter_model [z0, z1, z2] measurement_function_rpy
        measurement_cov_rpy s = (Returned, s)
      \<and> measurement_update filter_model [z0, z1, z2] measurement_function_optical_flow
          measurement_cov_optical_flow s = (Returned, s)
      \<and> measurement_update filter_model [r] measurement_function_ir measurement_cov_ir s
          = (Returned, s))
   \<and> (fst (and_then r0 (\<lambda>s1. ukf_predict lib (h s1))) = Returned \<longrightarrow>
      computed_first_prior (snd (and_then r0 (\<lambda>s1. ukf_predict lib (h s1)))))
   \<and> imu_data_callback lib imu s
       = and_then
           (and_then (update_input_time (imu_stamp imu) s)
              (\<lambda>s1. ukf_predict lib
                 (s1\<lparr>last_control_input :=
                       (case linear_acceleration imu of (ax, ay, az) \<Rightarrow> [ax, ay, az])\<rparr>)))
           (measurement_update lib
              (case euler_from_quaternion lib (orientation imu) of
                 (roll, pitch, yaw) \<Rightarrow> [roll, pitch, yaw])
              measurement_function_rpy measurement_cov_rpy)
   \<and> optical_flow_data_callback lib flow s
       = and_then (and_then (update_input_time (mode_stamp flow) s) (\<lambda>s1. ukf_predict lib s1))
           (measurement_update lib [x_velocity flow, y_velocity flow, yaw_velocity flow]
              measurement_function_optical_flow measurement_cov_optical_flow)
   \<and> ir_data_callback lib ir s
       = and_then (and_then (update_input_time (range_stamp ir) s) (\<lambda>s1. ukf_predict lib s1))
           (measurement_update lib [range_value ir] measurement_function_ir measurement_cov_ir)
   \<and> measurement_update lib z hx R (s\<lparr>computed_first_prior := b\<rparr>)
       = (fst (measurement_update lib z hx R s),
          (snd (measurement_update lib z hx R s))\<lparr>computed_first_prior := b\<rparr>)
   \<and> fst (imu_data_callback lib imu (s\<lparr>computed_first_prior := b\<rparr>))
       = fst (imu_data_callback lib imu s)
   \<and> ukf (snd (imu_data_callback lib imu (s\<lparr>computed_first_prior := b\<rparr>)))
       = ukf (snd (imu_data_callback lib imu s))
   \<and> fst (optical_flow_data_callback lib flow (s\<lparr>computed_first_prior := b\<rparr>))
       = fst (optical_flow_data_callback lib flow s)
   \<and> ukf (snd (optical_flow_data_callback lib flow (s\<lparr>computed_first_prior := b\<rparr>)))
       = ukf (snd (optical_flow_data_callback lib flow s))
   \<and> fst (ir_data_callback lib ir (s\<lparr>computed_first_prior := b\<rparr>))
       = fst (ir_data_callback lib ir s)
   \<and> ukf (snd (ir_data_callback lib ir (s\<lparr>computed_first_prior := b\<rparr>)))
       = ukf (snd (ir_data_callback lib ir s))"
proof -
  have unpredicted: "ukf s = initial_ukf \<longrightarrow>
      measurement_update filter_model [z0, z1, z2] measurement_function_rpy
        measurement_cov_rpy s = (Returned, s)
      \<and> measurement_update filter_model [z0, z1, z2] measurement_function_optical_flow
          measurement_cov_optical_flow s = (Returned, s)
      \<and> measurement_update filter_model [r] measurement_function_ir measurement_cov_ir s
          = (Returned, s)"
    by (simp add: measurement_update_unpredicted)
  have prefix: "fst (and_then r0 (\<lambda>s1. ukf_predict lib (h s1))) = Returned \<longrightarrow>
      computed_first_prior (snd (and_then r0 (\<lambda>s1. ukf_predict lib (h s1))))"
  proof (cases r0)
    case (Pair out s0)
    then show ?thesis
      by (cases out) (simp_all add: and_then_simps ukf_predict_sets_flag)
  qed
  obtain ax ay az where a: "linear_acceleration imu = (ax, ay, az)"
    by (cases "linear_acceleration imu") auto
  obtain roll pitch yaw where e: "euler_from_quaternion lib (orientation imu) = (roll, pitch, yaw)"
    by (cases "euler_from_quaternion lib (orientation imu)") auto
  have imu_eq: "imu_data_callback lib imu s
       = and_then
           (and_then (update_input_time (imu_stamp imu) s)
              (\<lambda>s1. ukf_predict lib
                 (s1\<lparr>last_control_input :=
                       (case linear_acceleration imu of (ax, ay, az) \<Rightarrow> [ax, ay, az])\<rparr>)))
           (measurement_update lib
              (case euler_from_quaternion lib (orientation imu) of
                 (roll, pitch, yaw) \<Rightarrow> [roll, pitch, yaw])
              measurement_function_rpy measurement_cov_rpy)"
    by (simp add: imu_data_callback_def a e and_then_assoc)
  have flow_eq: "optical_flow_data_callback lib flow s
       = and_then (and_then (update_input_time (mode_stamp flow) s) (\<lambda>s1. ukf_predict lib s1))
           (measurement_update lib [x_velocity flow, y_velocity flow, yaw_velocity flow]
              measurement_function_optical_flow measurement_cov_optical_flow)"
    by (simp add: optical_flow_data_callback_def and_then_assoc)
  have ir_eq: "ir_data_callback lib ir s
       = and_then (and_then (update_input_time (range_stamp ir) s) (\<lambda>s1. ukf_predict lib s1))
           (measurement_update lib [range_value ir] measurement_function_ir measurement_cov_ir)"
    by (simp add: ir_data_callback_def and_then_assoc)
  from imu_data_callback_flag [where lib = lib and d = imu and s = s and b = b] obtain c1
    where 1: "imu_data_callback lib imu (s\<lparr>computed_first_prior := b\<rparr>)
     = (fst (imu_data_callback lib imu s),
        (snd (imu_data_callback lib imu s))\<lparr>computed_first_prior := c1\<rparr>)" ..
  from optical_flow_data_callback_flag [where lib = lib and d = flow and s = s and b = b] obtain c2
    where 2: "optical_flow_data_callback lib flow (s\<lparr>computed_first_prior := b\<rparr>)
     = (fst (optical_flow_data_callback lib flow s),
        (snd (optical_flow_data_callback lib flow s))\<lparr>computed_first_prior := c2\<rparr>)" ..
  from ir_data_callback_flag [where lib = lib and d = ir and s = s and b = b] obtain c3
    where 3: "ir_data_callback lib ir (s\<lparr>computed_first_prior := b\<rparr>)
     = (fst (ir_data_callback lib ir s),
        (snd (ir_data_callback lib ir s))\<lparr>computed_first_prior := c3\<rparr>)" ..
  have b1: "fst (imu_data_callback lib imu (s\<lparr>computed_first_prior := b\<rparr>))
       = fst (imu_data_callback lib imu s)"
    and b2: "ukf (snd (imu_data_callback lib imu (s\<lparr>computed_first_prior := b\<rparr>)))
       = ukf (snd (imu_data_callback lib imu s))"
    unfolding 1 by simp_all
  have b3: "fst (optical_flow_data_callback lib flow (s\<lparr>computed_first_prior := b\<rparr>))
       = fst (optical_flow_data_callback lib flow s)"
    and b4: "ukf (snd (optical_flow_data_callback lib flow (s\<lparr>computed_first_prior := b\<rparr>)))
       = ukf (snd (optical_flow_data_callback lib flow s))"
    unfolding 2 by simp_all
  have b5: "fst (ir_data_callback lib ir (s\<lparr>computed_first_prior := b\<rparr>))
       = fst (ir_data_callback lib ir s)"
    and b6: "ukf (snd (ir_data_callback lib ir (s\<lparr>computed_first_prior := b\<rparr>)))
       = ukf (snd (ir_data_callback lib ir s))"
    unfolding 3 by simp_all
  note mu = measurement_update_flag [where lib = lib and z = z and hx = hx and R = R
      and s = s and b = b]
  from unpredicted prefix imu_eq flow_eq ir_eq mu b1 b2 b3 b4 b5 b6 show ?thesis
    by (intro conjI) assumption+
qed

theorem first_prior_flag_never_read_witness:
  "ukf initial_state = initial_ukf
   \<and> measurement_update filter_model [1, 0, 0] measurement_function_rpy measurement_cov_rpy
        initial_state = (Returned, initial_state)
   \<and> measurement_update filter_model [1] measurement_function_ir measurement_cov_ir
        initial_state = (Returned, initial_state)
   \<and> computed_first_prior moving_state = False
   \<and> fst (and_then (update_input_time \<lparr>secs = 11, nsecs = 0\<rparr> moving_state)
            (ukf_predict filter_model)) = Returned
   \<and> computed_first_prior
        (snd (and_then (update_input_time \<lparr>secs = 11, nsecs = 0\<rparr> moving_state)
                (ukf_predict filter_model))) = True"
proof -
  have t: "last_state_transition_time moving_state = Some 10"
    by (simp add: moving_state_def)
  have dt: "stamp_to_secs \<lparr>secs = 11, nsecs = 0\<rparr> - 10 = 1"
    by (simp add: stamp_to_secs_def)
  from predict_moving [of 1] obtain P' F'
    where p: "filter_predict state_transition_function (Some 1) [0, 0, 0]
          (initial_ukf\<lparr>ukf_x := [0, 0, 0, 1, 0, 0, 0, 0, 0, 0, 0, 0]\<rparr>)
        = (Returned, initial_ukf\<lparr>ukf_x := [1, 0, 0, 1, 0, 0, 0, 0, 0, 0, 0, 0], ukf_P := P',
             ukf_sigmas_f := F'\<rparr>)"
    by blast
  have u: "last_control_input moving_state = [0, 0, 0]"
    and k: "ukf moving_state = initial_ukf\<lparr>ukf_x := [0, 0, 0, 1, 0, 0, 0, 0, 0, 0, 0, 0]\<rparr>"
    and f: "computed_first_prior moving_state = False"
    and lp: "lib_predict filter_model = filter_predict"
    and i: "ukf initial_state = initial_ukf"
    by (simp_all add: moving_state_def initial_state_def filter_model_def)
  have r: "fst (and_then (update_input_time \<lparr>secs = 11, nsecs = 0\<rparr> moving_state)
            (ukf_predict filter_model)) = Returned"
    by (simp add: update_input_time_Some [OF t] dt and_then_simps ukf_predict_def u k lp p)
  note T = first_prior_flag_never_read
    [where lib = filter_model and h = "\<lambda>s. s" and s = initial_state
       and ?r0.0 = "update_input_time \<lparr>secs = 11, nsecs = 0\<rparr> moving_state"
       and ?z0.0 = 1 and ?z1.0 = 0 and ?z2.0 = 0 and r = 1]
  from T i have "measurement_update filter_model [1, 0, 0] measurement_function_rpy
        measurement_cov_rpy initial_state = (Returned, initial_state)"
    and "measurement_update filter_model [1] measurement_function_ir measurement_cov_ir
        initial_state = (Returned, initial_state)"
    by blast+
  moreover from T have "fst (and_then (update_input_time \<lparr>secs = 11, nsecs = 0\<rparr> moving_state)
            (ukf_predict filter_model)) = Returned \<longrightarrow>
      computed_first_prior (snd (and_then (update_input_time \<lparr>secs = 11, nsecs = 0\<rparr> moving_state)
            (ukf_predict filter_model)))"
    by blast
  ultimately show ?thesis
    using r f i by simp
qed

subsection \<open>Process model\<close>

text \<open>
  What the state transition computes, for a state \<open>x\<close> of twelve components, a control
  input \<open>u\<close> of three and a stored mean that has its attitude components: the positions
  advance by velocity times \<open>dt\<close>, the orientation by angular velocity times \<open>dt\<close>, the angular
  velocities are copied, and the linear velocities are displaced by \<open>dt\<close> times the product
  \<open>g\<close> of the source's matrix with \<open>u\<close>. The control input enters components 3 to 5 only.
\<close>

lemma state_transition_function_components:
  assumes "length x = 12" and "length u = 3" and "9 \<le> length ukf_mean"
  shows "\<exists>g y. g = mat_vec (rotation_matrix (deg2rad (ukf_mean ! 6)) (deg2rad (ukf_mean ! 7))
                     (deg2rad (ukf_mean ! 8))) u
      \<and> apply_rotation_matrix ukf_mean u = Inr g \<and> length g = 3
      \<and> state_transition_function ukf_mean x dt u = Inr y \<and> length y = 12
      \<and> y ! 0 = x ! 0 + x ! 3 * dt \<and> y ! 1 = x ! 1 + x ! 4 * dt \<and> y ! 2 = x ! 2 + x ! 5 * dt
      \<and> y ! 3 = x ! 3 + g ! 0 * dt \<and> y ! 4 = x ! 4 + g ! 1 * dt \<and> y ! 5 = x ! 5 + g ! 2 * dt
      \<and> y ! 6 = x ! 6 + x ! 9 * dt \<and> y ! 7 = x ! 7 + x ! 10 * dt \<and> y ! 8 = x ! 8 + x ! 11 * dt
      \<and> y ! 9 = x ! 9 \<and> y ! 10 = x ! 10 \<and> y ! 11 = x ! 11"
proof -
  from assms(1) obtain a0 a1 a2 a3 a4 a5 a6 a7 a8 a9 a10 a11
    where x: "x = [a0, a1, a2, a3, a4, a5, a6, a7, a8, a9, a10, a11]"
    by (rule length12_explicit)
  have g: "apply_rotation_matrix ukf_mean u
      = Inr (mat_vec (rotation_matrix (deg2rad (ukf_mean ! 6)) (deg2rad (ukf_mean ! 7))
                     (deg2rad (ukf_mean ! 8))) u)"
    using assms(2,3)
    by (simp add: apply_rotation_matrix_def np_index_def np_dot_def rotation_matrix_def
        mat_vec_def)
  from apply_rotation_matrix_length [OF g] obtain g0 g1 g2
    where g3: "mat_vec (rotation_matrix (deg2rad (ukf_mean ! 6)) (deg2rad (ukf_mean ! 7))
                     (deg2rad (ukf_mean ! 8))) u = [g0, g1, g2]"
    by (rule length3_explicit)
  note y = state_transition_function_explicit [OF x g [unfolded g3], of dt]
  show ?thesis
    using g g3 y by (simp add: x mult.commute)
qed

text \<open>
  C5. The claim: positions advance by velocity times \<open>dt\<close>, orientation by angular velocity
  times \<open>dt\<close>, the linear velocities are displaced by the control input rotated into the
  global frame and scaled by \<open>dt\<close>, and orientation and angular velocity do not depend on the
  control input. All of it holds but the rotation: the displacement is made with the matrix
  of \<^verbatim>\<open>apply_rotation_matrix\<close>, which is not the rotation (C1). With a stored roll of 90
  degrees, \<open>dt = 1\<close> and \<open>u = (0, 0, 1)\<close>, the velocity \<open>(4, 5, 6)\<close> becomes \<open>(4, 6, 6)\<close>; the
  control input rotated into the global frame is \<open>(0, -1, 0)\<close>, which would give
  \<open>(4, 4, 6)\<close>.
\<close>

theorem state_transition_function_roll_90:
  "state_transition_function [0, 0, 0, 0, 0, 0, 90, 0, 0, 0, 0, 0]
     [1, 2, 3, 4, 5, 6, 7, 8, 9, 10, 11, 12] 1 [0, 0, 1]
     = Inr [5, 7, 9, 4, 6, 6, 17, 19, 21, 10, 11, 12]
   \<and> spec_rotate_to_global [0, 0, 1] 90 0 0 = [0, - 1, 0]"
proof -
  have g: "apply_rotation_matrix [0, 0, 0, 0, 0, 0, 90, 0, 0, 0, 0, 0] [0, 0, 1] = Inr [0, 1, 0]"
    by (simp add: apply_rotation_matrix_def np_index_def deg2rad_def rotation_matrix_def
        np_dot_def inner_prod_def)
  have "spec_rotate_to_global [0, 0, 1] 90 0 0 = [0, - 1, 0]"
    by (simp add: spec_rotate_to_global_def mat_vec_def rotation_x_def rotation_y_def
        rotation_z_def deg2rad_def inner_prod_def)
  with state_transition_function_explicit [OF refl g, of 1 2 3 4 5 6 7 8 9 10 11 12 1]
  show ?thesis by simp
qed

subsection \<open>Observation models\<close>

text \<open>
  C6. For a state \<open>x\<close> of twelve components the orientation observation is components 6, 7
  and 8, the optical-flow observation is components 3, 4 and 11, and the slant-range
  observation is component 2 divided by \<open>cos(pitch) \<cdot> cos(roll)\<close>, the angles being components
  7 and 6 of the very \<open>x\<close> passed in, converted to radians: the function has no other
  argument and reads no stored value. The quotient is stated where the divisor is not zero.
\<close>

theorem measurement_functions_select:
  assumes "length x = 12"
  shows "measurement_function_rpy x = Inr [x ! 6, x ! 7, x ! 8]
    \<and> measurement_function_optical_flow x = Inr [x ! 3, x ! 4, x ! 11]
    \<and> (cos (deg2rad (x ! 7)) * cos (deg2rad (x ! 6)) \<noteq> 0 \<longrightarrow>
         measurement_function_ir x
           = Inr [x ! 2 / (cos (deg2rad (x ! 7)) * cos (deg2rad (x ! 6)))])"
proof -
  from assms obtain a0 a1 a2 a3 a4 a5 a6 a7 a8 a9 a10 a11
    where x: "x = [a0, a1, a2, a3, a4, a5, a6, a7, a8, a9, a10, a11]"
    by (rule length12_explicit)
  show ?thesis
    by (simp add: x measurement_function_rpy_def measurement_function_optical_flow_def
        measurement_function_ir_def np_dot_def inner_prod_def np_index_def Let_def)
qed

theorem measurement_functions_select_witness:
  "length [0, 0, 5, 1, 2, 0, 60, 0, 30, 0, 0, 3 :: real] = 12
   \<and> measurement_function_rpy [0, 0, 5, 1, 2, 0, 60, 0, 30, 0, 0, 3] = Inr [60, 0, 30]
   \<and> measurement_function_optical_flow [0, 0, 5, 1, 2, 0, 60, 0, 30, 0, 0, 3] = Inr [1, 2, 3]
   \<and> measurement_function_ir [0, 0, 5, 1, 2, 0, 60, 0, 30, 0, 0, 3] = Inr [10]"
  using measurement_functions_select [of "[0, 0, 5, 1, 2, 0, 60, 0, 30, 0, 0, 3]"]
  by (simp add: deg2rad_def cos_60)

subsection \<open>The attitude that rotates the control input\<close>

text \<open>
  C7. The control input is rotated by the attitude of the stored mean: one vector \<open>g\<close>, got
  from the stored mean and \<open>u\<close> alone, displaces the velocity of every propagated state \<open>x\<close>
  by \<open>dt \<cdot> g\<close>, whatever the orientation components of \<open>x\<close>; in particular it is the same for
  all sigma points generated around the stored mean in one prediction.
\<close>

theorem control_input_rotated_by_stored_mean:
  assumes "length u = 3" and "9 \<le> length ukf_mean"
  shows "\<exists>g. apply_rotation_matrix ukf_mean u = Inr g
      \<and> (\<forall>x. length x = 12 \<longrightarrow>
            (\<exists>y. state_transition_function ukf_mean x dt u = Inr y
               \<and> y ! 3 = x ! 3 + dt * g ! 0 \<and> y ! 4 = x ! 4 + dt * g ! 1
               \<and> y ! 5 = x ! 5 + dt * g ! 2))
      \<and> (\<forall>P sigmas. sigma_points ukf_mean P = Inr sigmas \<longrightarrow>
            (\<forall>s \<in> set sigmas.
               \<exists>y. state_transition_function ukf_mean s dt u = Inr y
                 \<and> y ! 3 = s ! 3 + dt * g ! 0 \<and> y ! 4 = s ! 4 + dt * g ! 1
                 \<and> y ! 5 = s ! 5 + dt * g ! 2))"
proof -
  from apply_rotation_matrix_defined [OF assms(2) assms(1)]
  obtain g where g: "apply_rotation_matrix ukf_mean u = Inr g" by blast
  from apply_rotation_matrix_length [OF g] obtain g0 g1 g2 where g3: "g = [g0, g1, g2]"
    by (rule length3_explicit)
  have one: "\<exists>y. state_transition_function ukf_mean x dt u = Inr y
      \<and> y ! 3 = x ! 3 + dt * g ! 0 \<and> y ! 4 = x ! 4 + dt * g ! 1 \<and> y ! 5 = x ! 5 + dt * g ! 2"
    if "length x = 12" for x
  proof -
    from that obtain a0 a1 a2 a3 a4 a5 a6 a7 a8 a9 a10 a11
      where x: "x = [a0, a1, a2, a3, a4, a5, a6, a7, a8, a9, a10, a11]"
      by (rule length12_explicit)
    from state_transition_function_explicit [OF x g [unfolded g3], of dt]
    show ?thesis by (simp add: x g3)
  qed
  have "length s = 12" if "sigma_points ukf_mean P = Inr sigmas" "s \<in> set sigmas" for P sigmas s
  proof -
    from that(1) obtain U where "length ukf_mean = state_vector_dim"
      "list_all (\<lambda>r. length r = state_vector_dim) U"
      "sigmas = ukf_mean # map (vadd ukf_mean) U @ map (vsub ukf_mean) U"
      by (rule sigma_points_shape)
    with that(2) show ?thesis
      by (auto simp: list_all_iff state_vector_dim_def)
  qed
  with one g show ?thesis by blast
qed

theorem control_input_rotated_by_stored_mean_witness:
  "length [0, 0, 1 :: real] = 3
   \<and> 9 \<le> length [0, 0, 0, 0, 0, 0, 90, 0, 0, 0, 0, 0 :: real]
   \<and> (\<exists>y. state_transition_function [0, 0, 0, 0, 0, 0, 90, 0, 0, 0, 0, 0]
             [5, 5, 5, 1, 1, 1, 0, 0, 0, 0, 0, 0] 2 [0, 0, 1] = Inr y
         \<and> y ! 3 = 1 \<and> y ! 4 = 3 \<and> y ! 5 = 1)"
proof -
  have g: "apply_rotation_matrix [0, 0, 0, 0, 0, 0, 90, 0, 0, 0, 0, 0] [0, 0, 1] = Inr [0, 1, 0]"
    by (simp add: apply_rotation_matrix_def np_index_def deg2rad_def rotation_matrix_def
        np_dot_def inner_prod_def)
  from control_input_rotated_by_stored_mean
    [of "[0, 0, 1]" "[0, 0, 0, 0, 0, 0, 90, 0, 0, 0, 0, 0]" 2]
  obtain g' where "apply_rotation_matrix [0, 0, 0, 0, 0, 0, 90, 0, 0, 0, 0, 0] [0, 0, 1] = Inr g'"
    and "\<forall>x. length x = 12 \<longrightarrow>
            (\<exists>y. state_transition_function [0, 0, 0, 0, 0, 0, 90, 0, 0, 0, 0, 0] x 2 [0, 0, 1] = Inr y
               \<and> y ! 3 = x ! 3 + 2 * g' ! 0 \<and> y ! 4 = x ! 4 + 2 * g' ! 1
               \<and> y ! 5 = x ! 5 + 2 * g' ! 2)"
    by auto
  then have g': "g' = [0, 1, 0]"
    and all: "\<And>x. length x = 12 \<Longrightarrow>
            (\<exists>y. state_transition_function [0, 0, 0, 0, 0, 0, 90, 0, 0, 0, 0, 0] x 2 [0, 0, 1] = Inr y
               \<and> y ! 3 = x ! 3 + 2 * g' ! 0 \<and> y ! 4 = x ! 4 + 2 * g' ! 1
               \<and> y ! 5 = x ! 5 + 2 * g' ! 2)"
    using g by auto
  from all [of "[5, 5, 5, 1, 1, 1, 0, 0, 0, 0, 0, 0]"] show ?thesis
    by (simp add: g')
qed

subsection \<open>Zero elapsed time\<close>

text \<open>
  C8. With \<open>dt = 0\<close> the state transition returns its argument \<open>x\<close>, for every control input;
  and a prediction with \<open>dt = 0\<close>, with the filter of the specification, leaves the stored mean
  as it was (if it raises, because it raises before the mean is assigned; if it returns,
  because the weighted mean of the sigma points is the stored mean).
\<close>

theorem zero_dt_is_identity:
  "(length x = 12 \<and> length u = 3 \<and> 9 \<le> length ukf_mean \<longrightarrow>
      state_transition_function ukf_mean x 0 u = Inr x)
   \<and> (self_dt s = Some 0 \<longrightarrow>
        ukf_x (ukf (snd (ukf_predict filter_model s))) = ukf_x (ukf s))"
proof (intro conjI impI)
  assume a: "length x = 12 \<and> length u = 3 \<and> 9 \<le> length ukf_mean"
  then obtain g where g: "apply_rotation_matrix ukf_mean u = Inr g"
    using apply_rotation_matrix_defined by blast
  from a have "length x = state_vector_dim" by (simp add: state_vector_dim_def)
  from state_transition_function_affine [OF g this, of 0]
  obtain y where y: "state_transition_function ukf_mean x 0 u = Inr y" by blast
  from state_transition_function_dt0 [OF y] y
  show "state_transition_function ukf_mean x 0 u = Inr x" by simp
next
  assume dt: "self_dt s = Some 0"
  obtain r k' where rk: "filter_predict state_transition_function (Some 0)
      (last_control_input s) (ukf s) = (r, k')"
    by (cases "filter_predict state_transition_function (Some 0) (last_control_input s) (ukf s)")
  from filter_predict_result [OF rk] have "ukf_x k' = ukf_x (ukf s)"
    using state_transition_function_dt0 by fastforce
  with rk dt show "ukf_x (ukf (snd (ukf_predict filter_model s))) = ukf_x (ukf s)"
    by (simp add: ukf_predict_ukf filter_model_def)
qed

theorem zero_dt_is_identity_witness:
  "length [1, 2, 3, 4, 5, 6, 7, 8, 9, 10, 11, 12 :: real] = 12
   \<and> length [0, 0, 2 :: real] = 3
   \<and> 9 \<le> length [0, 0, 0, 0, 0, 0, 90, 0, 0, 0, 0, 0 :: real]
   \<and> state_transition_function [0, 0, 0, 0, 0, 0, 90, 0, 0, 0, 0, 0]
        [1, 2, 3, 4, 5, 6, 7, 8, 9, 10, 11, 12] 0 [0, 0, 2]
      = Inr [1, 2, 3, 4, 5, 6, 7, 8, 9, 10, 11, 12]
   \<and> self_dt (moving_state\<lparr>self_dt := Some 0\<rparr>) = Some 0
   \<and> fst (ukf_predict filter_model (moving_state\<lparr>self_dt := Some 0\<rparr>)) = Returned
   \<and> ukf_x (ukf (snd (ukf_predict filter_model (moving_state\<lparr>self_dt := Some 0\<rparr>))))
      = [0, 0, 0, 1, 0, 0, 0, 0, 0, 0, 0, 0]"
proof -
  from predict_moving [of 0] obtain P' F'
    where "filter_predict state_transition_function (Some 0) [0, 0, 0]
          (initial_ukf\<lparr>ukf_x := [0, 0, 0, 1, 0, 0, 0, 0, 0, 0, 0, 0]\<rparr>)
        = (Returned, initial_ukf\<lparr>ukf_x := [0, 0, 0, 1, 0, 0, 0, 0, 0, 0, 0, 0], ukf_P := P', ukf_sigmas_f := F'\<rparr>)"
    by blast
  then have "fst (ukf_predict filter_model (moving_state\<lparr>self_dt := Some 0\<rparr>)) = Returned"
    by (simp add: ukf_predict_def filter_model_def moving_state_def initial_state_def)
  moreover have "ukf_x (ukf (moving_state\<lparr>self_dt := Some 0\<rparr>)) = [0, 0, 0, 1, 0, 0, 0, 0, 0, 0, 0, 0]"
    by (simp add: moving_state_def)
  ultimately show ?thesis
    using zero_dt_is_identity [of "[1, 2, 3, 4, 5, 6, 7, 8, 9, 10, 11, 12]" "[0, 0, 2]"
        "[0, 0, 0, 0, 0, 0, 90, 0, 0, 0, 0, 0]" "moving_state\<lparr>self_dt := Some 0\<rparr>"]
    by simp
qed

subsection \<open>The stored control input\<close>

text \<open>
  C9. The optical-flow and the range callback leave \<^verbatim>\<open>last_control_input\<close> as it was, however
  they end. Each of them is the time update and \<^verbatim>\<open>ukf_predict\<close>, then its measurement update,
  and the filter after the first two is what the library's predict returns for the control
  input stored before the arrival. An inertial arrival with a prior timestamp replaces the
  stored value by the reading's linear acceleration. The value is zero at construction.
\<close>

theorem control_input_replaced_only_by_imu:
  "last_control_input (snd (optical_flow_data_callback lib flow s)) = last_control_input s
   \<and> last_control_input (snd (ir_data_callback lib ir s)) = last_control_input s
   \<and> optical_flow_data_callback lib flow s
       = and_then (and_then (update_input_time (mode_stamp flow) s) (ukf_predict lib))
           (measurement_update lib [x_velocity flow, y_velocity flow, yaw_velocity flow]
              measurement_function_optical_flow measurement_cov_optical_flow)
   \<and> ir_data_callback lib ir s
       = and_then (and_then (update_input_time (range_stamp ir) s) (ukf_predict lib))
           (measurement_update lib [range_value ir] measurement_function_ir measurement_cov_ir)
   \<and> (last_state_transition_time s = Some t \<longrightarrow>
        ukf (snd (and_then (update_input_time stamp s) (ukf_predict lib)))
          = snd (lib_predict lib state_transition_function (Some (stamp_to_secs stamp - t))
                   (last_control_input s) (ukf s)))
   \<and> (last_state_transition_time s = Some t \<longrightarrow>
        last_control_input (snd (imu_data_callback lib imu s))
          = (case linear_acceleration imu of (ax, ay, az) \<Rightarrow> [ax, ay, az]))
   \<and> last_control_input initial_state = [0, 0, 0]"
proof (intro conjI impI)
  have pu: "last_control_input (snd (and_then (ukf_predict lib s') (measurement_update lib z hx R)))
      = last_control_input s'" for s' z hx R
    by (simp add: and_then_frame [where f = last_control_input, OF measurement_update_frame(1)]
        ukf_predict_frame)
  show "last_control_input (snd (optical_flow_data_callback lib flow s)) = last_control_input s"
    unfolding optical_flow_data_callback_def Let_def
    by (simp add: and_then_frame [where f = last_control_input, OF pu] update_input_time_frame)
  show "last_control_input (snd (ir_data_callback lib ir s)) = last_control_input s"
    unfolding ir_data_callback_def Let_def
    by (simp add: and_then_frame [where f = last_control_input, OF pu] update_input_time_frame)
  show "optical_flow_data_callback lib flow s
       = and_then (and_then (update_input_time (mode_stamp flow) s) (ukf_predict lib))
           (measurement_update lib [x_velocity flow, y_velocity flow, yaw_velocity flow]
              measurement_function_optical_flow measurement_cov_optical_flow)"
    by (simp add: optical_flow_data_callback_def and_then_assoc)
  show "ir_data_callback lib ir s
       = and_then (and_then (update_input_time (range_stamp ir) s) (ukf_predict lib))
           (measurement_update lib [range_value ir] measurement_function_ir measurement_cov_ir)"
    by (simp add: ir_data_callback_def and_then_assoc)
  show "last_control_input initial_state = [0, 0, 0]"
    by (simp add: initial_state_def)
next
  assume t: "last_state_transition_time s = Some t"
  then show "ukf (snd (and_then (update_input_time stamp s) (ukf_predict lib)))
          = snd (lib_predict lib state_transition_function (Some (stamp_to_secs stamp - t))
                   (last_control_input s) (ukf s))"
    by (rule time_then_predict_ukf)
  obtain ax ay az where a: "linear_acceleration imu = (ax, ay, az)"
    by (cases "linear_acceleration imu") auto
  obtain roll pitch yaw where e: "euler_from_quaternion lib (orientation imu) = (roll, pitch, yaw)"
    by (cases "euler_from_quaternion lib (orientation imu)") auto
  have pu: "last_control_input (snd (and_then (ukf_predict lib s') (measurement_update lib z hx R)))
      = last_control_input s'" for s' z hx R
    by (simp add: and_then_frame [where f = last_control_input, OF measurement_update_frame(1)]
        ukf_predict_frame)
  show "last_control_input (snd (imu_data_callback lib imu s))
          = (case linear_acceleration imu of (ax, ay, az) \<Rightarrow> [ax, ay, az])"
    by (simp add: imu_data_callback_def update_input_time_Some [OF t] a e pu and_then_simps)
qed

theorem control_input_replaced_only_by_imu_witness:
  "last_state_transition_time (moving_state\<lparr>last_control_input := [0, 0, 49 / 5]\<rparr>) = Some 10
   \<and> last_control_input
        (snd (optical_flow_data_callback filter_model
          \<lparr>mode_stamp = \<lparr>secs = 11, nsecs = 0\<rparr>, x_velocity = 1, y_velocity = 0, yaw_velocity = 0\<rparr>
          (moving_state\<lparr>last_control_input := [0, 0, 49 / 5]\<rparr>))) = [0, 0, 49 / 5]
   \<and> last_control_input
        (snd (ir_data_callback filter_model
          \<lparr>range_stamp = \<lparr>secs = 11, nsecs = 0\<rparr>, range_value = 1\<rparr>
          (moving_state\<lparr>last_control_input := [0, 0, 49 / 5]\<rparr>))) = [0, 0, 49 / 5]
   \<and> last_control_input
        (snd (imu_data_callback filter_model
          \<lparr>imu_stamp = \<lparr>secs = 11, nsecs = 0\<rparr>, linear_acceleration = (1, 2, 3),
             orientation = (0, 0, 0, 1)\<rparr>
          (moving_state\<lparr>last_control_input := [0, 0, 49 / 5]\<rparr>))) = [1, 2, 3]"
proof -
  let ?s = "moving_state\<lparr>last_control_input := [0, 0, 49 / 5]\<rparr>"
  let ?flow = "\<lparr>mode_stamp = \<lparr>secs = 11, nsecs = 0\<rparr>, x_velocity = 1, y_velocity = 0,
                 yaw_velocity = 0\<rparr>"
  let ?ir = "\<lparr>range_stamp = \<lparr>secs = 11, nsecs = 0\<rparr>, range_value = 1\<rparr>"
  let ?imu = "\<lparr>imu_stamp = \<lparr>secs = 11, nsecs = 0\<rparr>, linear_acceleration = (1, 2, 3),
                orientation = (0, 0, 0, 1)\<rparr>"
  note T = control_input_replaced_only_by_imu
    [where lib = filter_model and s = ?s and t = 10 and flow = ?flow and ir = ?ir and imu = ?imu]
  have t: "last_state_transition_time ?s = Some 10"
    and u: "last_control_input ?s = [0, 0, 49 / 5]"
    by (simp_all add: moving_state_def)
  from T have "last_control_input (snd (optical_flow_data_callback filter_model ?flow ?s))
      = last_control_input ?s"
    by blast
  moreover from T have "last_control_input (snd (ir_data_callback filter_model ?ir ?s))
      = last_control_input ?s"
    by blast
  moreover from T t have "last_control_input (snd (imu_data_callback filter_model ?imu ?s))
      = (case linear_acceleration ?imu of (ax, ay, az) \<Rightarrow> [ax, ay, az])"
    by blast
  ultimately show ?thesis
    using t by (simp add: u)
qed

subsection \<open>The fusion timestamp\<close>

text \<open>
  The claim C10 says that the stored timestamp moves to the arrival's only after predict and
  correct have succeeded, and is retained when one of them fails. An estimator that last fused
  at 0 s and whose covariance is no longer positive definite receives a range reading
  stamped 1 s: the prediction raises \<^verbatim>\<open>LinAlgError\<close>, and the stored timestamp is 1 s.
\<close>

theorem timestamp_moved_when_prediction_fails:
  "last_state_transition_time degenerate_state = Some 0
   \<and> fst (ir_data_callback filter_model
            \<lparr>range_stamp = \<lparr>secs = 1, nsecs = 0\<rparr>, range_value = 1\<rparr> degenerate_state)
       = Raised LinAlgError
   \<and> last_state_transition_time
        (snd (ir_data_callback filter_model
               \<lparr>range_stamp = \<lparr>secs = 1, nsecs = 0\<rparr>, range_value = 1\<rparr> degenerate_state))
       = Some 1"
proof -
  have t: "last_state_transition_time degenerate_state = Some 0"
    by (simp add: degenerate_state_def)
  have P: "ukf_P (ukf degenerate_state) = zero_mat state_vector_dim state_vector_dim"
    and x: "length (ukf_x (ukf degenerate_state)) = state_vector_dim"
    by (simp_all add: degenerate_state_def initial_ukf_def)
  have "cholesky (mat_scale c (zero_mat state_vector_dim state_vector_dim)) = Inl LinAlgError" for c
    by (simp add: cholesky_def mat_scale_def zero_mat_def smul_def state_vector_dim_def
        eval_nat_numeral list_all_iff)
  then have sp: "sigma_points (ukf_x (ukf degenerate_state)) (ukf_P (ukf degenerate_state))
      = Inl LinAlgError"
    by (simp add: sigma_points_def P x zero_mat_def)
  have p: "filter_predict fx dt u (ukf degenerate_state) = (Raised LinAlgError, ukf degenerate_state)"
    for fx dt u
    by (simp add: filter_predict_def sp)
  have u: "ukf (s\<lparr>last_time_secs := a, last_time_nsecs := b, self_dt := c,
      last_state_transition_time := d\<rparr>) = ukf s" for s :: StateEstimation and a b c d
    by simp
  show ?thesis
    by (simp add: ir_data_callback_def update_input_time_Some [OF t] and_then_def ukf_predict_def
        filter_model_def p stamp_to_secs_def t)
qed

text \<open>
  C10, as the source has it. For an arrival with a prior timestamp, \<^verbatim>\<open>update_input_time\<close>
  sets \<^verbatim>\<open>last_state_transition_time\<close> to the arrival's timestamp before predict and correct
  run, and that is its value when the callback ends, whether they returned or raised.
\<close>

theorem timestamp_set_on_receipt:
  assumes "last_state_transition_time s = Some t"
  shows "last_state_transition_time (snd (imu_data_callback lib imu s))
        = Some (stamp_to_secs (imu_stamp imu))
    \<and> last_state_transition_time (snd (optical_flow_data_callback lib flow s))
        = Some (stamp_to_secs (mode_stamp flow))
    \<and> last_state_transition_time (snd (ir_data_callback lib ir s))
        = Some (stamp_to_secs (range_stamp ir))"
proof -
  have pu: "last_state_transition_time
        (snd (and_then (ukf_predict lib s') (measurement_update lib z hx R)))
      = last_state_transition_time s'" for s' z hx R
    by (simp add: and_then_frame [where f = last_state_transition_time,
          OF measurement_update_frame(2)] ukf_predict_frame)
  obtain ax ay az where a: "linear_acceleration imu = (ax, ay, az)"
    by (cases "linear_acceleration imu") auto
  obtain roll pitch yaw where e: "euler_from_quaternion lib (orientation imu) = (roll, pitch, yaw)"
    by (cases "euler_from_quaternion lib (orientation imu)") auto
  show ?thesis
    by (simp add: imu_data_callback_def optical_flow_data_callback_def ir_data_callback_def
        update_input_time_Some [OF assms] a e pu and_then_simps)
qed

theorem timestamp_set_on_receipt_witness:
  "last_state_transition_time degenerate_state = Some 0
   \<and> last_state_transition_time
        (snd (imu_data_callback filter_model
          \<lparr>imu_stamp = \<lparr>secs = 2, nsecs = 500000000\<rparr>, linear_acceleration = (0, 0, 49 / 5),
             orientation = (0, 0, 0, 1)\<rparr> degenerate_state)) = Some (5 / 2)
   \<and> last_state_transition_time
        (snd (optical_flow_data_callback filter_model
          \<lparr>mode_stamp = \<lparr>secs = 3, nsecs = 0\<rparr>, x_velocity = 1, y_velocity = 0, yaw_velocity = 0\<rparr>
          moving_state)) = Some 3"
proof -
  have t: "last_state_transition_time degenerate_state = Some 0"
    "last_state_transition_time moving_state = Some 10"
    by (simp_all add: degenerate_state_def moving_state_def)
  from timestamp_set_on_receipt [OF t(1), where lib = filter_model
      and imu = "\<lparr>imu_stamp = \<lparr>secs = 2, nsecs = 500000000\<rparr>,
        linear_acceleration = (0, 0, 49 / 5), orientation = (0, 0, 0, 1)\<rparr>"]
    timestamp_set_on_receipt [OF t(2), where lib = filter_model
      and flow = "\<lparr>mode_stamp = \<lparr>secs = 3, nsecs = 0\<rparr>, x_velocity = 1, y_velocity = 0,
        yaw_velocity = 0\<rparr>"]
  show ?thesis
    by (simp add: t stamp_to_secs_def)
qed

end
